theory Spec2Isabelle
  imports Complex_Main "HOL-Library.Sublist"
begin

section \<open>Floating-point values\<close>

text \<open>
  A \<open>float\<close> or \<open>double\<close> of the program is modelled by the real number it denotes.
  Every arithmetic operation that \<open>main.cpp\<close> itself performs on floats is followed by the
  rounding of IEEE 754: \<open>fround p\<close> rounds to the nearest number with a significand of
  \<open>p\<close> bits, ties to the even significand. The exponent range is not bounded, so the
  model has no infinity, no NaN and no subnormal numbers.
\<close>

type_synonym float = real
type_synonym double = real

definition fround :: "nat \<Rightarrow> real \<Rightarrow> real" where
  "fround p x =
     (if x = 0 then 0
      else
        let u = 2 powr (of_int \<lfloor>log 2 \<bar>x\<bar>\<rfloor> - (of_nat p - 1));
            q = x / u;
            n = \<lfloor>q\<rfloor>;
            r = q - of_int n
        in (if r < 1 / 2 \<or> (r = 1 / 2 \<and> even n) then of_int n else of_int n + 1) * u)"

definition f32 :: "real \<Rightarrow> float" where
  "f32 = fround 24"

definition f64 :: "real \<Rightarrow> double" where
  "f64 = fround 53"

section \<open>glm\<close>

text \<open>
  The vector and matrix functions of the glm library that \<open>main.cpp\<close> calls, as the
  real-valued functions glm evaluates (glm works in binary32; the rounding inside glm is
  not modelled). A matrix is the tuple of its columns, as in glm.
\<close>

type_synonym vec3 = "float \<times> float \<times> float"
type_synonym vec4 = "float \<times> float \<times> float \<times> float"
type_synonym mat3 = "vec3 \<times> vec3 \<times> vec3"
type_synonym mat4 = "vec4 \<times> vec4 \<times> vec4 \<times> vec4"

definition glm_radians :: "float \<Rightarrow> float" where
  "glm_radians degrees = degrees * (pi / 180)"

fun vec3_add :: "vec3 \<Rightarrow> vec3 \<Rightarrow> vec3" where
  "vec3_add (a, b, c) (x, y, z) = (a + x, b + y, c + z)"

fun vec3_sub :: "vec3 \<Rightarrow> vec3 \<Rightarrow> vec3" where
  "vec3_sub (a, b, c) (x, y, z) = (a - x, b - y, c - z)"

fun vec3_scale :: "vec3 \<Rightarrow> float \<Rightarrow> vec3" where
  "vec3_scale (x, y, z) k = (x * k, y * k, z * k)"

fun glm_dot :: "vec3 \<Rightarrow> vec3 \<Rightarrow> float" where
  "glm_dot (a, b, c) (x, y, z) = a * x + b * y + c * z"

fun glm_cross :: "vec3 \<Rightarrow> vec3 \<Rightarrow> vec3" where
  "glm_cross (a, b, c) (x, y, z) = (b * z - y * c, c * x - z * a, a * y - x * b)"

definition glm_inversesqrt :: "float \<Rightarrow> float" where
  "glm_inversesqrt x = 1 / sqrt x"

definition glm_normalize :: "vec3 \<Rightarrow> vec3" where
  "glm_normalize v = vec3_scale v (glm_inversesqrt (glm_dot v v))"

fun vec4_add :: "vec4 \<Rightarrow> vec4 \<Rightarrow> vec4" where
  "vec4_add (a, b, c, d) (x, y, z, w) = (a + x, b + y, c + z, d + w)"

fun vec4_scale :: "vec4 \<Rightarrow> float \<Rightarrow> vec4" where
  "vec4_scale (x, y, z, w) k = (x * k, y * k, z * k, w * k)"

fun vec3_of_vec4 :: "vec4 \<Rightarrow> vec3" where
  "vec3_of_vec4 (x, y, z, w) = (x, y, z)"

definition vec3_splat :: "float \<Rightarrow> vec3" where
  "vec3_splat k = (k, k, k)"

definition mat4_diag :: "float \<Rightarrow> mat4" where
  "mat4_diag k = ((k, 0, 0, 0), (0, k, 0, 0), (0, 0, k, 0), (0, 0, 0, k))"

fun mat4_mul_vec4 :: "mat4 \<Rightarrow> vec4 \<Rightarrow> vec4" where
  "mat4_mul_vec4 (m0, m1, m2, m3) (x, y, z, w) =
     vec4_add (vec4_add (vec4_add (vec4_scale m0 x) (vec4_scale m1 y)) (vec4_scale m2 z))
       (vec4_scale m3 w)"

fun mat4_mul :: "mat4 \<Rightarrow> mat4 \<Rightarrow> mat4" where
  "mat4_mul a (b0, b1, b2, b3) =
     (mat4_mul_vec4 a b0, mat4_mul_vec4 a b1, mat4_mul_vec4 a b2, mat4_mul_vec4 a b3)"

fun glm_translate :: "mat4 \<Rightarrow> vec3 \<Rightarrow> mat4" where
  "glm_translate (m0, m1, m2, m3) (x, y, z) =
     (m0, m1, m2,
      vec4_add (vec4_add (vec4_add (vec4_scale m0 x) (vec4_scale m1 y)) (vec4_scale m2 z)) m3)"

fun glm_scale :: "mat4 \<Rightarrow> vec3 \<Rightarrow> mat4" where
  "glm_scale (m0, m1, m2, m3) (x, y, z) = (vec4_scale m0 x, vec4_scale m1 y, vec4_scale m2 z, m3)"

fun glm_rotate :: "mat4 \<Rightarrow> float \<Rightarrow> vec3 \<Rightarrow> mat4" where
  "glm_rotate (m0, m1, m2, m3) a v =
     (let c = cos a; s = sin a;
          axis = glm_normalize v;
          ax = fst axis; ay = fst (snd axis); az = snd (snd axis);
          temp = vec3_scale axis (1 - c);
          tx = fst temp; ty = fst (snd temp); tz = snd (snd temp);
          r00 = c + tx * ax; r01 = tx * ay + s * az; r02 = tx * az - s * ay;
          r10 = ty * ax - s * az; r11 = c + ty * ay; r12 = ty * az + s * ax;
          r20 = tz * ax + s * ay; r21 = tz * ay - s * ax; r22 = c + tz * az
      in (vec4_add (vec4_add (vec4_scale m0 r00) (vec4_scale m1 r01)) (vec4_scale m2 r02),
          vec4_add (vec4_add (vec4_scale m0 r10) (vec4_scale m1 r11)) (vec4_scale m2 r12),
          vec4_add (vec4_add (vec4_scale m0 r20) (vec4_scale m1 r21)) (vec4_scale m2 r22),
          m3))"

definition glm_lookAt :: "vec3 \<Rightarrow> vec3 \<Rightarrow> vec3 \<Rightarrow> mat4" where
  "glm_lookAt eye center up =
     (let f = glm_normalize (vec3_sub center eye);
          s = glm_normalize (glm_cross f up);
          u = glm_cross s f
      in ((fst s, fst u, - fst f, 0),
          (fst (snd s), fst (snd u), - fst (snd f), 0),
          (snd (snd s), snd (snd u), - snd (snd f), 0),
          (- glm_dot s eye, - glm_dot u eye, glm_dot f eye, 1)))"

definition glm_ortho :: "float \<Rightarrow> float \<Rightarrow> float \<Rightarrow> float \<Rightarrow> float \<Rightarrow> float \<Rightarrow> mat4" where
  "glm_ortho left right bottom top' zNear zFar =
     ((2 / (right - left), 0, 0, 0),
      (0, 2 / (top' - bottom), 0, 0),
      (0, 0, - 2 / (zFar - zNear), 0),
      (- (right + left) / (right - left), - (top' + bottom) / (top' - bottom),
       - (zFar + zNear) / (zFar - zNear), 1))"

definition glm_perspective :: "float \<Rightarrow> float \<Rightarrow> float \<Rightarrow> float \<Rightarrow> mat4" where
  "glm_perspective fovy aspect zNear zFar =
     (let tanHalfFovy = tan (fovy / 2)
      in ((1 / (aspect * tanHalfFovy), 0, 0, 0),
          (0, 1 / tanHalfFovy, 0, 0),
          (0, 0, - (zFar + zNear) / (zFar - zNear), - 1),
          (0, 0, - (2 * zFar * zNear) / (zFar - zNear), 0)))"

text \<open>
  \<open>glm_inverseTranspose m\<close> is the matrix of cofactors of \<open>m\<close> divided by the determinant.
  For a singular matrix glm divides by a zero determinant; the model's division returns 0
  there.
\<close>

fun vec4_list :: "vec4 \<Rightarrow> float list" where
  "vec4_list (x, y, z, w) = [x, y, z, w]"

fun mat4_list :: "mat4 \<Rightarrow> float list list" where
  "mat4_list (m0, m1, m2, m3) = [vec4_list m0, vec4_list m1, vec4_list m2, vec4_list m3]"

definition without :: "nat \<Rightarrow> 'a list \<Rightarrow> 'a list" where
  "without i xs = take i xs @ drop (Suc i) xs"

fun det3 :: "float list list \<Rightarrow> float" where
  "det3 [[a, b, c], [d, e, f], [g, h, i]] =
     a * (e * i - h * f) - d * (b * i - h * c) + g * (b * f - e * c)"
| "det3 _ = 0"

definition cofactor :: "mat4 \<Rightarrow> nat \<Rightarrow> nat \<Rightarrow> float" where
  "cofactor m c r = (- 1) ^ (c + r) * det3 (map (without r) (without c (mat4_list m)))"

definition determinant :: "mat4 \<Rightarrow> float" where
  "determinant m =
     (let col0 = vec4_list (fst m)
      in col0 ! 0 * cofactor m 0 0 + col0 ! 1 * cofactor m 0 1 + col0 ! 2 * cofactor m 0 2
         + col0 ! 3 * cofactor m 0 3)"

definition glm_inverseTranspose :: "mat4 \<Rightarrow> mat4" where
  "glm_inverseTranspose m =
     (let d = determinant m;
          col = (\<lambda>c. (cofactor m c 0 / d, cofactor m c 1 / d, cofactor m c 2 / d,
                       cofactor m c 3 / d))
      in (col 0, col 1, col 2, col 3))"

fun mat3_of_mat4 :: "mat4 \<Rightarrow> mat3" where
  "mat3_of_mat4 (m0, m1, m2, m3) = (vec3_of_vec4 m0, vec3_of_vec4 m1, vec3_of_vec4 m2)"

section \<open>GLFW, OpenGL and the collaborating classes\<close>

text \<open>
  The constants of the GLFW and OpenGL headers that \<open>main.cpp\<close> uses, and the calls into
  OpenGL, GLFW and the classes \<open>gps::Window\<close>, \<open>gps::Shader\<close>, \<open>gps::Model3D\<close>,
  \<open>gps::SkyBox\<close> and \<open>gps::Camera\<close>, none of which is defined in \<open>main.cpp\<close>. A call
  changes the part of the OpenGL state the model keeps (viewport, polygon mode, program in
  use, bound framebuffer) and is appended to the list of calls made so far.
\<close>

definition GLFW_RELEASE :: int where "GLFW_RELEASE = 0"
definition GLFW_PRESS :: int where "GLFW_PRESS = 1"
definition GLFW_REPEAT :: int where "GLFW_REPEAT = 2"

definition GLFW_KEY_SPACE :: int where "GLFW_KEY_SPACE = 32"
definition GLFW_KEY_1 :: int where "GLFW_KEY_1 = 49"
definition GLFW_KEY_2 :: int where "GLFW_KEY_2 = 50"
definition GLFW_KEY_3 :: int where "GLFW_KEY_3 = 51"
definition GLFW_KEY_4 :: int where "GLFW_KEY_4 = 52"
definition GLFW_KEY_A :: int where "GLFW_KEY_A = 65"
definition GLFW_KEY_D :: int where "GLFW_KEY_D = 68"
definition GLFW_KEY_E :: int where "GLFW_KEY_E = 69"
definition GLFW_KEY_J :: int where "GLFW_KEY_J = 74"
definition GLFW_KEY_L :: int where "GLFW_KEY_L = 76"
definition GLFW_KEY_M :: int where "GLFW_KEY_M = 77"
definition GLFW_KEY_Q :: int where "GLFW_KEY_Q = 81"
definition GLFW_KEY_S :: int where "GLFW_KEY_S = 83"
definition GLFW_KEY_W :: int where "GLFW_KEY_W = 87"
definition GLFW_KEY_ESCAPE :: int where "GLFW_KEY_ESCAPE = 256"
definition GLFW_KEY_LEFT_SHIFT :: int where "GLFW_KEY_LEFT_SHIFT = 340"

definition GL_INVALID_ENUM :: nat where "GL_INVALID_ENUM = 1280"
definition GL_INVALID_VALUE :: nat where "GL_INVALID_VALUE = 1281"
definition GL_INVALID_OPERATION :: nat where "GL_INVALID_OPERATION = 1282"
definition GL_OUT_OF_MEMORY :: nat where "GL_OUT_OF_MEMORY = 1285"
definition GL_INVALID_FRAMEBUFFER_OPERATION :: nat where "GL_INVALID_FRAMEBUFFER_OPERATION = 1286"

definition EXIT_SUCCESS :: int where "EXIT_SUCCESS = 0"
definition EXIT_FAILURE :: int where "EXIT_FAILURE = 1"

definition SHADOW_WIDTH :: int where "SHADOW_WIDTH = 2048"
definition SHADOW_HEIGHT :: int where "SHADOW_HEIGHT = 2048"

datatype cursor_mode = GLFW_CURSOR_NORMAL | GLFW_CURSOR_HIDDEN | GLFW_CURSOR_DISABLED

datatype polygon_mode = GL_POINT | GL_LINE | GL_FILL

datatype framebuffer = default_framebuffer | shadowMapFBO

datatype shader = myBasicShader | lightShader | depthMapShader | skyboxShader

datatype model3d = nanosuit | ground | lightCube

text \<open>
  A uniform location is the pair that \<open>glGetUniformLocation(shader.shaderProgram, name)\<close>
  was asked for; the location globals hold \<open>Loc_zero\<close> (they are zero-initialised) until
  \<open>initUniforms\<close> assigns them.
\<close>

datatype uloc = Loc shader string | Loc_zero

datatype uval = UInt int | UVec3 vec3 | UMat3 mat3 | UMat4 mat4

text \<open>
  \<open>Uniform p l v\<close> is a \<open>glUniform*\<close> call with location \<open>l\<close> and value \<open>v\<close>, made while
  program \<open>p\<close> was in use. \<open>Other\<close> stands for a call that changes nothing the model keeps.
\<close>

datatype gl_call =
    UseProgram shader
  | Uniform "shader option" uloc uval
  | Viewport int int int int
  | BindFramebuffer framebuffer
  | Clear bool bool
  | PolygonMode polygon_mode
  | ActiveTexture nat
  | BindDepthMapTexture
  | Draw model3d shader
  | DrawSkyBox shader mat4 mat4
  | LoadModel model3d string
  | LoadShader shader string string
  | LoadSkyBox "string list"
  | SwapBuffers
  | WindowDelete
  | Other string

datatype output_line =
    GLError string string int
  | WindowResized int int
  | What string

text \<open>
  \<open>gps::Camera\<close> is declared in \<open>Camera.hpp\<close>, which is not part of the sources at hand.
  The model keeps the arguments of the constructor and the calls of \<open>move\<close> and \<open>rotate\<close>
  made so far, in order; \<open>getViewMatrix\<close> is a parameter of every function that calls it.
\<close>

datatype MOVE_DIRECTION =
  MOVE_FORWARD | MOVE_BACKWARD | MOVE_RIGHT | MOVE_LEFT | MOVE_UP | MOVE_DOWN

datatype camera_call = Move MOVE_DIRECTION float | Rotate float float

record camera =
  cameraPosition :: vec3
  cameraTarget :: vec3
  cameraUp :: vec3
  camera_calls :: "camera_call list"

definition camera_move :: "MOVE_DIRECTION \<Rightarrow> float \<Rightarrow> camera \<Rightarrow> camera" where
  "camera_move direction speed c = c\<lparr>camera_calls := camera_calls c @ [Move direction speed]\<rparr>"

definition camera_rotate :: "float \<Rightarrow> float \<Rightarrow> camera \<Rightarrow> camera" where
  "camera_rotate p y c = c\<lparr>camera_calls := camera_calls c @ [Rotate p y]\<rparr>"

text \<open>
  \<open>gps::Window\<close> is declared in \<open>Window.h\<close>, which is not part of the sources at hand
  either. The model keeps what \<open>main.cpp\<close> reads from it: the dimensions that
  \<open>getWindowDimensions()\<close> returns, the close flag of \<open>glfwWindowShouldClose\<close> and the
  cursor mode of \<open>glfwGetInputMode\<close>.
\<close>

record window =
  created :: bool
  win_width :: int
  win_height :: int
  shouldClose :: bool
  cursorMode :: cursor_mode

section \<open>The globals of \<open>main.cpp\<close>\<close>

text \<open>
  One field for each global variable of \<open>main.cpp\<close> that the modelled functions read or
  write, under its own name, followed by the OpenGL state, the calls made so far and the two
  output streams.
\<close>

record state =
  firstMouse :: bool
  lastX :: float
  lastY :: float
  yaw :: float
  pitch :: float
  isFlatLoc :: uloc
  isFlat :: int
  myWindow :: window
  model :: mat4
  view :: mat4
  projection :: mat4
  normalMatrix :: mat3
  lightDir :: vec3
  lightColor :: vec3
  pointLightPos :: vec3
  pointLightPosLoc :: uloc
  modelLoc :: uloc
  viewLoc :: uloc
  projectionLoc :: uloc
  normalMatrixLoc :: uloc
  lightDirLoc :: uloc
  lightColorLoc :: uloc
  myCamera :: camera
  cameraSpeed :: float
  pressedKeys :: "bool list"
  angle :: float
  lightAngle :: float
  gl_viewport :: "int \<times> int \<times> int \<times> int"
  gl_polygonMode :: polygon_mode
  gl_program :: "shader option"
  gl_framebuffer :: framebuffer
  gl_calls :: "gl_call list"
  cout :: "output_line list"
  cerr :: "output_line list"

definition mat3_zero :: mat3 where
  "mat3_zero = ((0, 0, 0), (0, 0, 0), (0, 0, 0))"

text \<open>
  The state when \<open>main\<close> starts: the initialisers of the globals (a global without one is
  zero-initialised) and the initial OpenGL state (polygon mode \<open>GL_FILL\<close>, no program in
  use, the default framebuffer bound).
\<close>

definition initial_state :: state where
  "initial_state =
     \<lparr> firstMouse = True, lastX = 512, lastY = 384, yaw = - 90, pitch = 0,
       isFlatLoc = Loc_zero, isFlat = 0,
       myWindow = \<lparr> created = False, win_width = 0, win_height = 0, shouldClose = False,
                    cursorMode = GLFW_CURSOR_NORMAL \<rparr>,
       model = mat4_diag 0, view = mat4_diag 0, projection = mat4_diag 0,
       normalMatrix = mat3_zero,
       lightDir = (0, 0, 0), lightColor = (0, 0, 0), pointLightPos = (0, 0, 0),
       pointLightPosLoc = Loc_zero, modelLoc = Loc_zero, viewLoc = Loc_zero,
       projectionLoc = Loc_zero, normalMatrixLoc = Loc_zero, lightDirLoc = Loc_zero,
       lightColorLoc = Loc_zero,
       myCamera = \<lparr> cameraPosition = (0, 0, 3), cameraTarget = (0, 0, - 10),
                    cameraUp = (0, 1, 0), camera_calls = [] \<rparr>,
       cameraSpeed = f32 (5 / 100),
       pressedKeys = replicate 1024 False,
       angle = 0, lightAngle = 0,
       gl_viewport = (0, 0, 0, 0), gl_polygonMode = GL_FILL, gl_program = None,
       gl_framebuffer = default_framebuffer, gl_calls = [],
       cout = [], cerr = [] \<rparr>"

subsection \<open>Calls into OpenGL and the collaborating classes\<close>

definition gl :: "gl_call \<Rightarrow> state \<Rightarrow> state" where
  "gl c s = s\<lparr>gl_calls := gl_calls s @ [c]\<rparr>"

definition glViewport :: "int \<Rightarrow> int \<Rightarrow> int \<Rightarrow> int \<Rightarrow> state \<Rightarrow> state" where
  "glViewport x y w h s = gl (Viewport x y w h) (s\<lparr>gl_viewport := (x, y, w, h)\<rparr>)"

definition glPolygonMode :: "polygon_mode \<Rightarrow> state \<Rightarrow> state" where
  "glPolygonMode m s = gl (PolygonMode m) (s\<lparr>gl_polygonMode := m\<rparr>)"

definition glBindFramebuffer :: "framebuffer \<Rightarrow> state \<Rightarrow> state" where
  "glBindFramebuffer fb s = gl (BindFramebuffer fb) (s\<lparr>gl_framebuffer := fb\<rparr>)"

definition useShaderProgram :: "shader \<Rightarrow> state \<Rightarrow> state" where
  "useShaderProgram sh s = gl (UseProgram sh) (s\<lparr>gl_program := Some sh\<rparr>)"

definition glGetUniformLocation :: "shader \<Rightarrow> string \<Rightarrow> uloc" where
  "glGetUniformLocation sh name = Loc sh name"

definition glUniform :: "uloc \<Rightarrow> uval \<Rightarrow> state \<Rightarrow> state" where
  "glUniform l v s = gl (Uniform (gl_program s) l v) s"

definition glUniformMatrix4fv :: "uloc \<Rightarrow> mat4 \<Rightarrow> state \<Rightarrow> state" where
  "glUniformMatrix4fv l m = glUniform l (UMat4 m)"

definition glUniformMatrix3fv :: "uloc \<Rightarrow> mat3 \<Rightarrow> state \<Rightarrow> state" where
  "glUniformMatrix3fv l m = glUniform l (UMat3 m)"

definition glUniform3fv :: "uloc \<Rightarrow> vec3 \<Rightarrow> state \<Rightarrow> state" where
  "glUniform3fv l v = glUniform l (UVec3 v)"

definition glUniform1i :: "uloc \<Rightarrow> int \<Rightarrow> state \<Rightarrow> state" where
  "glUniform1i l i = glUniform l (UInt i)"

definition print_cout :: "output_line \<Rightarrow> state \<Rightarrow> state" where
  "print_cout l s = s\<lparr>cout := cout s @ [l]\<rparr>"

definition print_cerr :: "output_line \<Rightarrow> state \<Rightarrow> state" where
  "print_cerr l s = s\<lparr>cerr := cerr s @ [l]\<rparr>"

section \<open>The functions of \<open>main.cpp\<close>\<close>

subsection \<open>\<open>glCheckError\<close>\<close>

text \<open>
  \<open>glCheckError file line\<close> is the function \<open>glCheckError_(file, line)\<close> of the source,
  which the macro \<open>glCheckError()\<close> calls with the place of the call.
  The loop polls \<open>glGetError()\<close> until it returns \<open>GL_NO_ERROR\<close> (0). What the driver
  reports is an input of the model: \<open>pending\<close> lists the codes the successive calls return.
\<close>

definition error_name :: "nat \<Rightarrow> string" where
  "error_name errorCode =
     (if errorCode = GL_INVALID_ENUM then ''INVALID_ENUM''
      else if errorCode = GL_INVALID_VALUE then ''INVALID_VALUE''
      else if errorCode = GL_INVALID_OPERATION then ''INVALID_OPERATION''
      else if errorCode = GL_OUT_OF_MEMORY then ''OUT_OF_MEMORY''
      else if errorCode = GL_INVALID_FRAMEBUFFER_OPERATION then ''INVALID_FRAMEBUFFER_OPERATION''
      else [])"

definition glCheckError :: "string \<Rightarrow> int \<Rightarrow> nat list \<Rightarrow> state \<Rightarrow> state" where
  "glCheckError file line pending s =
     fold (\<lambda>errorCode. print_cout (GLError (error_name errorCode) file line))
       (takeWhile (\<lambda>errorCode. errorCode \<noteq> 0) pending) s"

subsection \<open>The callbacks\<close>

definition windowResizeCallback :: "int \<Rightarrow> int \<Rightarrow> state \<Rightarrow> state" where
  "windowResizeCallback width height s0 =
     (let s = print_cout (WindowResized width height) s0;
          s = glViewport 0 0 width height s;
          s = s\<lparr>projection :=
                 glm_perspective (glm_radians 45)
                   (f32 (f32 (of_int width) / f32 (of_int height))) (f32 (1 / 10)) 20\<rparr>;
          s = useShaderProgram myBasicShader s;
          s = glUniformMatrix4fv (projectionLoc s) (projection s) s
      in s)"

definition keyboardCallback :: "int \<Rightarrow> int \<Rightarrow> int \<Rightarrow> int \<Rightarrow> state \<Rightarrow> state" where
  "keyboardCallback key scancode action mode s0 =
     (let s = (if key = GLFW_KEY_ESCAPE \<and> action = GLFW_PRESS
               then s0\<lparr>myWindow := (myWindow s0)\<lparr>shouldClose := True\<rparr>\<rparr>
               else s0);
          s = (if key = GLFW_KEY_M \<and> action = GLFW_PRESS
               then (if cursorMode (myWindow s) = GLFW_CURSOR_DISABLED
                     then s\<lparr>myWindow := (myWindow s)\<lparr>cursorMode := GLFW_CURSOR_NORMAL\<rparr>\<rparr>
                     else s\<lparr>myWindow := (myWindow s)\<lparr>cursorMode := GLFW_CURSOR_DISABLED\<rparr>\<rparr>)
               else s);
          s = (if key \<ge> 0 \<and> key < 1024
               then (if action = GLFW_PRESS
                     then s\<lparr>pressedKeys := (pressedKeys s)[nat key := True]\<rparr>
                     else if action = GLFW_RELEASE
                     then s\<lparr>pressedKeys := (pressedKeys s)[nat key := False]\<rparr>
                     else s)
               else s)
      in s)"

definition mouseCallback :: "(camera \<Rightarrow> mat4) \<Rightarrow> double \<Rightarrow> double \<Rightarrow> state \<Rightarrow> state" where
  "mouseCallback getViewMatrix xpos ypos s0 =
     (if cursorMode (myWindow s0) = GLFW_CURSOR_NORMAL then s0
      else
        let s = (if firstMouse s0
                 then s0\<lparr>lastX := f32 xpos, lastY := f32 ypos, firstMouse := False\<rparr>
                 else s0);
            xoffset = f32 (f64 (xpos - lastX s));
            yoffset = f32 (f64 (lastY s - ypos));
            s = s\<lparr>lastX := f32 xpos, lastY := f32 ypos\<rparr>;
            sensitivity = f32 (1 / 10);
            xoffset = f32 (xoffset * sensitivity);
            yoffset = f32 (yoffset * sensitivity);
            s = s\<lparr>yaw := f32 (yaw s + xoffset)\<rparr>;
            s = s\<lparr>pitch := f32 (pitch s + yoffset)\<rparr>;
            s = (if pitch s > 89 then s\<lparr>pitch := 89\<rparr> else s);
            s = (if pitch s < - 89 then s\<lparr>pitch := - 89\<rparr> else s);
            s = s\<lparr>myCamera := camera_rotate (pitch s) (yaw s) (myCamera s)\<rparr>;
            s = s\<lparr>view := getViewMatrix (myCamera s)\<rparr>;
            s = useShaderProgram myBasicShader s;
            s = glUniformMatrix4fv (viewLoc s) (view s) s;
            s = s\<lparr>normalMatrix := mat3_of_mat4 (glm_inverseTranspose (mat4_mul (view s) (model s)))\<rparr>;
            s = glUniformMatrix3fv (normalMatrixLoc s) (normalMatrix s) s
        in s)"

subsection \<open>\<open>processInput\<close>\<close>

text \<open>
  The six blocks for the keys W, S, A, D, SPACE and LEFT_SHIFT differ in the direction
  only; \<open>move_block\<close> is their common body. The blocks for Q and E differ in the sign of
  the step; \<open>rotate_block\<close> is their common body.
\<close>

definition move_block :: "(camera \<Rightarrow> mat4) \<Rightarrow> MOVE_DIRECTION \<Rightarrow> state \<Rightarrow> state" where
  "move_block getViewMatrix direction s0 =
     (let s = s0\<lparr>myCamera := camera_move direction (cameraSpeed s0) (myCamera s0)\<rparr>;
          s = s\<lparr>view := getViewMatrix (myCamera s)\<rparr>;
          s = useShaderProgram myBasicShader s;
          s = glUniformMatrix4fv (viewLoc s) (view s) s;
          s = s\<lparr>normalMatrix := mat3_of_mat4 (glm_inverseTranspose (mat4_mul (view s) (model s)))\<rparr>
      in s)"

definition rotate_block :: "float \<Rightarrow> state \<Rightarrow> state" where
  "rotate_block delta s0 =
     (let s = s0\<lparr>angle := f32 (angle s0 + delta)\<rparr>;
          s = s\<lparr>model := glm_rotate (mat4_diag 1) (glm_radians (angle s)) (0, 1, 0)\<rparr>;
          s = s\<lparr>normalMatrix := mat3_of_mat4 (glm_inverseTranspose (mat4_mul (view s) (model s)))\<rparr>
      in s)"

text \<open>
  \<open>if_pressed key body\<close> is the statement \<open>if (pressedKeys[key]) { body }\<close>.
\<close>

definition if_pressed :: "int \<Rightarrow> (state \<Rightarrow> state) \<Rightarrow> state \<Rightarrow> state" where
  "if_pressed key body s = (if pressedKeys s ! nat key then body s else s)"

definition processInput :: "(camera \<Rightarrow> mat4) \<Rightarrow> state \<Rightarrow> state" where
  "processInput getViewMatrix s0 =
     (let s = if_pressed GLFW_KEY_W (move_block getViewMatrix MOVE_FORWARD) s0;
          s = if_pressed GLFW_KEY_S (move_block getViewMatrix MOVE_BACKWARD) s;
          s = if_pressed GLFW_KEY_A (move_block getViewMatrix MOVE_LEFT) s;
          s = if_pressed GLFW_KEY_D (move_block getViewMatrix MOVE_RIGHT) s;
          s = if_pressed GLFW_KEY_SPACE (move_block getViewMatrix MOVE_UP) s;
          s = if_pressed GLFW_KEY_LEFT_SHIFT (move_block getViewMatrix MOVE_DOWN) s;
          s = if_pressed GLFW_KEY_Q (rotate_block (- 1)) s;
          s = if_pressed GLFW_KEY_E (rotate_block 1) s;
          s = if_pressed GLFW_KEY_1 (\<lambda>s. (glPolygonMode GL_FILL s)\<lparr>isFlat := 0\<rparr>) s;
          s = if_pressed GLFW_KEY_2 (\<lambda>s. (glPolygonMode GL_LINE s)\<lparr>isFlat := 0\<rparr>) s;
          s = if_pressed GLFW_KEY_3 (\<lambda>s. (glPolygonMode GL_POINT s)\<lparr>isFlat := 0\<rparr>) s;
          s = if_pressed GLFW_KEY_4 (\<lambda>s. (glPolygonMode GL_FILL s)\<lparr>isFlat := 1\<rparr>) s;
          s = if_pressed GLFW_KEY_J (\<lambda>s. s\<lparr>lightAngle := f32 (lightAngle s - 1)\<rparr>) s;
          s = if_pressed GLFW_KEY_L (\<lambda>s. s\<lparr>lightAngle := f32 (lightAngle s + 1)\<rparr>) s
      in s)"

subsection \<open>Initialisation\<close>

text \<open>
  Modelled from the spec: \<open>gps::Window::Create\<close> is not part of the sources at hand. The
  window collaborator "must provide a creatable window of given pixel dimensions, a way to
  query current dimensions"; a failure to create it is an exception derived from
  \<open>std::exception\<close> (the type that \<open>main\<close> catches), given by its \<open>what()\<close>.
  Whether creation fails is an input of the model.
\<close>

definition Window_Create :: "string option \<Rightarrow> int \<Rightarrow> int \<Rightarrow> window \<Rightarrow> string + window" where
  "Window_Create throws width height w =
     (case throws of
        Some what \<Rightarrow> Inl what
      | None \<Rightarrow> Inr (w\<lparr>created := True, win_width := width, win_height := height\<rparr>))"

definition initOpenGLWindow :: "string option \<Rightarrow> state \<Rightarrow> string + state" where
  "initOpenGLWindow throws s =
     (case Window_Create throws 1024 768 (myWindow s) of
        Inl what \<Rightarrow> Inl what
      | Inr w \<Rightarrow> Inr (s\<lparr>myWindow := w\<rparr>))"

definition setWindowCallbacks :: "state \<Rightarrow> state" where
  "setWindowCallbacks s0 =
     (let s = gl (Other ''glfwSetWindowSizeCallback'') s0;
          s = gl (Other ''glfwSetKeyCallback'') s;
          s = gl (Other ''glfwSetCursorPosCallback'') s;
          s = s\<lparr>myWindow := (myWindow s)\<lparr>cursorMode := GLFW_CURSOR_DISABLED\<rparr>\<rparr>
      in s)"

definition initOpenGLState :: "state \<Rightarrow> state" where
  "initOpenGLState s0 =
     (let s = gl (Other ''glClearColor'') s0;
          s = glViewport 0 0 (win_width (myWindow s)) (win_height (myWindow s)) s;
          s = gl (Other ''glEnable(GL_DEPTH_TEST)'') s;
          s = gl (Other ''glDepthFunc(GL_LESS)'') s;
          s = gl (Other ''glEnable(GL_CULL_FACE)'') s;
          s = gl (Other ''glCullFace(GL_BACK)'') s;
          s = gl (Other ''glFrontFace(GL_CCW)'') s;
          s = gl (Other ''glEnable(GL_BLEND)'') s;
          s = gl (Other ''glBlendFunc'') s
      in s)"

definition initModels :: "state \<Rightarrow> state" where
  "initModels s0 =
     (let s = gl (LoadModel nanosuit ''objects/nanosuit/nanosuit.obj'') s0;
          s = gl (LoadModel ground ''objects/ground/ground.obj'') s;
          s = gl (LoadModel lightCube ''objects/cube/cube.obj'') s;
          s = gl (LoadShader skyboxShader ''shaders/skyboxShader.vert''
                    ''shaders/skyboxShader.frag'') s;
          s = useShaderProgram skyboxShader s
      in s)"

definition initShaders :: "state \<Rightarrow> state" where
  "initShaders s0 =
     (let s = gl (LoadShader myBasicShader ''shaders/basic.vert'' ''shaders/basic.frag'') s0;
          s = gl (LoadShader lightShader ''shaders/lightCube.vert'' ''shaders/lightCube.frag'') s;
          s = gl (LoadShader depthMapShader ''shaders/depthMap.vert'' ''shaders/depthMap.frag'') s
      in s)"

definition initSkyBox :: "state \<Rightarrow> state" where
  "initSkyBox s =
     (let faces = [''skybox/right.tga'', ''skybox/left.tga'', ''skybox/top.tga'',
                   ''skybox/bottom.tga'', ''skybox/back.tga'', ''skybox/front.tga'']
      in gl (LoadSkyBox faces) s)"

definition initUniforms :: "(camera \<Rightarrow> mat4) \<Rightarrow> state \<Rightarrow> state" where
  "initUniforms getViewMatrix s0 =
     (let s = useShaderProgram myBasicShader s0;
          s = s\<lparr>model := glm_rotate (mat4_diag 1) (glm_radians (angle s)) (0, 1, 0)\<rparr>;
          s = s\<lparr>modelLoc := glGetUniformLocation myBasicShader ''model''\<rparr>;
          s = s\<lparr>view := getViewMatrix (myCamera s)\<rparr>;
          s = s\<lparr>viewLoc := glGetUniformLocation myBasicShader ''view''\<rparr>;
          s = glUniformMatrix4fv (viewLoc s) (view s) s;
          s = s\<lparr>normalMatrix := mat3_of_mat4 (glm_inverseTranspose (mat4_mul (view s) (model s)))\<rparr>;
          s = s\<lparr>normalMatrixLoc := glGetUniformLocation myBasicShader ''normalMatrix''\<rparr>;
          s = s\<lparr>projection :=
                 glm_perspective (glm_radians 45)
                   (f32 (f32 (of_int (win_width (myWindow s))) / f32 (of_int (win_height (myWindow s)))))
                   (f32 (1 / 10)) 50\<rparr>;
          s = s\<lparr>projectionLoc := glGetUniformLocation myBasicShader ''projection''\<rparr>;
          s = glUniformMatrix4fv (projectionLoc s) (projection s) s;
          s = s\<lparr>lightDir := (0, 1, 1)\<rparr>;
          s = s\<lparr>lightDirLoc := glGetUniformLocation myBasicShader ''lightDir''\<rparr>;
          s = glUniform3fv (lightDirLoc s) (lightDir s) s;
          s = s\<lparr>lightColor := (1, 1, 1)\<rparr>;
          s = s\<lparr>lightColorLoc := glGetUniformLocation myBasicShader ''lightColor''\<rparr>;
          s = glUniform3fv (lightColorLoc s) (lightColor s) s;
          s = s\<lparr>pointLightPos := (0, 2, 0)\<rparr>;
          s = s\<lparr>pointLightPosLoc := glGetUniformLocation myBasicShader ''pointLightPos''\<rparr>;
          s = glUniform3fv (pointLightPosLoc s) (pointLightPos s) s;
          s = s\<lparr>isFlatLoc := glGetUniformLocation myBasicShader ''isFlat''\<rparr>;
          s = glUniform1i (isFlatLoc s) (isFlat s) s
      in s)"

definition initFBO :: "state \<Rightarrow> state" where
  "initFBO s0 =
     (let s = gl (Other ''glGenFramebuffers'') s0;
          s = gl (Other ''glGenTextures'') s;
          s = gl BindDepthMapTexture s;
          s = gl (Other ''glTexImage2D'') s;
          s = gl (Other ''glTexParameteri(GL_TEXTURE_MIN_FILTER, GL_NEAREST)'') s;
          s = gl (Other ''glTexParameteri(GL_TEXTURE_MAG_FILTER, GL_NEAREST)'') s;
          s = gl (Other ''glTexParameterfv(GL_TEXTURE_BORDER_COLOR)'') s;
          s = gl (Other ''glTexParameteri(GL_TEXTURE_WRAP_S, GL_CLAMP_TO_BORDER)'') s;
          s = gl (Other ''glTexParameteri(GL_TEXTURE_WRAP_T, GL_CLAMP_TO_BORDER)'') s;
          s = glBindFramebuffer shadowMapFBO s;
          s = gl (Other ''glFramebufferTexture2D'') s;
          s = gl (Other ''glDrawBuffer(GL_NONE)'') s;
          s = gl (Other ''glReadBuffer(GL_NONE)'') s;
          s = glBindFramebuffer default_framebuffer s
      in s)"

subsection \<open>\<open>computeLightSpaceTrMatrix\<close>\<close>

text \<open>
  The locals \<open>lightDirN\<close> (line 496) and \<open>lightPos\<close> (line 497) of
  \<open>computeLightSpaceTrMatrix\<close> get definitions of their own, so that theorems can name
  them.
\<close>

definition computeLightSpaceTrMatrix_lightDirN :: "state \<Rightarrow> vec3" where
  "computeLightSpaceTrMatrix_lightDirN s =
     (let lightRotation = glm_rotate (mat4_diag 1) (glm_radians (lightAngle s)) (0, 1, 0);
          rotatedLightDir = vec3_of_vec4 (mat4_mul_vec4 lightRotation (0, 1, 1, 0))
      in glm_normalize rotatedLightDir)"

definition computeLightSpaceTrMatrix_lightPos :: "state \<Rightarrow> vec3" where
  "computeLightSpaceTrMatrix_lightPos s =
     (let lightDirN = computeLightSpaceTrMatrix_lightDirN s
      in vec3_scale lightDirN 10)"

definition computeLightSpaceTrMatrix :: "state \<Rightarrow> mat4" where
  "computeLightSpaceTrMatrix s =
     (let lightPos = computeLightSpaceTrMatrix_lightPos s;
          target = vec3_splat 0;
          up = (0, 1, 0);
          lightView = glm_lookAt lightPos target up;
          lightProjection = glm_ortho (- 10) 10 (- 10) 10 1 50
      in mat4_mul lightProjection lightView)"

subsection \<open>\<open>drawObjects\<close> and \<open>renderScene\<close>\<close>

definition drawObjects :: "shader \<Rightarrow> bool \<Rightarrow> state \<Rightarrow> state" where
  "drawObjects shader depthPass s0 =
     (let s = useShaderProgram shader s0;
          s = s\<lparr>model := glm_rotate (mat4_diag 1) (glm_radians (angle s)) (0, 1, 0)\<rparr>;
          s = glUniformMatrix4fv (glGetUniformLocation shader ''model'') (model s) s;
          s = (if \<not> depthPass
               then (let s = s\<lparr>normalMatrix :=
                                 mat3_of_mat4 (glm_inverseTranspose (mat4_mul (view s) (model s)))\<rparr>
                     in glUniformMatrix3fv (glGetUniformLocation shader ''normalMatrix'')
                          (normalMatrix s) s)
               else s);
          s = gl (Draw nanosuit shader) s;
          s = s\<lparr>model := glm_translate (mat4_diag 1) (0, - 1, 0)\<rparr>;
          s = s\<lparr>model := glm_scale (model s) (vec3_splat (1 / 2))\<rparr>;
          s = glUniformMatrix4fv (glGetUniformLocation shader ''model'') (model s) s;
          s = (if \<not> depthPass
               then (let s = s\<lparr>normalMatrix :=
                                 mat3_of_mat4 (glm_inverseTranspose (mat4_mul (view s) (model s)))\<rparr>
                     in glUniformMatrix3fv (glGetUniformLocation shader ''normalMatrix'')
                          (normalMatrix s) s)
               else s);
          s = gl (Draw ground shader) s
      in s)"

definition renderScene :: "(camera \<Rightarrow> mat4) \<Rightarrow> state \<Rightarrow> state" where
  "renderScene getViewMatrix s0 =
     (let s = useShaderProgram depthMapShader s0;
          lightSpaceTrMatrix = computeLightSpaceTrMatrix s;
          s = glUniformMatrix4fv (glGetUniformLocation depthMapShader ''lightSpaceTrMatrix'')
                lightSpaceTrMatrix s;
          s = glViewport 0 0 SHADOW_WIDTH SHADOW_HEIGHT s;
          s = glBindFramebuffer shadowMapFBO s;
          s = gl (Clear False True) s;
          s = drawObjects depthMapShader True s;
          s = glBindFramebuffer default_framebuffer s;
          s = glViewport 0 0 (win_width (myWindow s)) (win_height (myWindow s)) s;
          s = gl (Clear True True) s;
          s = useShaderProgram myBasicShader s;
          s = glUniform1i (glGetUniformLocation myBasicShader ''isFlat'') (isFlat s) s;
          initAlphaLoc = glGetUniformLocation myBasicShader ''initAlpha'';
          s = glUniform1i initAlphaLoc 0 s;
          s = s\<lparr>view := getViewMatrix (myCamera s)\<rparr>;
          s = glUniformMatrix4fv (viewLoc s) (view s) s;
          s = glUniformMatrix4fv (glGetUniformLocation myBasicShader ''lightSpaceTrMatrix'')
                lightSpaceTrMatrix s;
          s = gl (ActiveTexture 2) s;
          s = gl BindDepthMapTexture s;
          s = glUniform1i (glGetUniformLocation myBasicShader ''shadowMap'') 2 s;
          lightRotation = glm_rotate (mat4_diag 1) (glm_radians (lightAngle s)) (0, 1, 0);
          rotatedLightDir = vec3_of_vec4 (mat4_mul_vec4 lightRotation (0, 1, 1, 0));
          s = glUniform3fv (lightDirLoc s) rotatedLightDir s;
          s = drawObjects myBasicShader False s;
          s = useShaderProgram lightShader s;
          s = glUniformMatrix4fv (glGetUniformLocation lightShader ''view'') (view s) s;
          s = glUniformMatrix4fv (glGetUniformLocation lightShader ''projection'') (projection s) s;
          s = s\<lparr>model := lightRotation\<rparr>;
          s = s\<lparr>model := glm_translate (model s) (vec3_scale (0, 1, 1) 10)\<rparr>;
          s = s\<lparr>model := glm_scale (model s) (1 / 2, 1 / 2, 1 / 2)\<rparr>;
          s = glUniformMatrix4fv (glGetUniformLocation lightShader ''model'') (model s) s;
          s = gl (Draw lightCube lightShader) s;
          s = gl (DrawSkyBox skyboxShader (view s) (projection s)) s
      in s)"

definition cleanup :: "state \<Rightarrow> state" where
  "cleanup s = gl WindowDelete s"

subsection \<open>\<open>main\<close>\<close>

text \<open>
  What reaches the program from outside is an input of the model: whether the window can
  be created, the error codes OpenGL reports at each \<open>glCheckError()\<close>, and for each
  iteration of the application loop the events that \<open>glfwPollEvents()\<close> delivers.
\<close>

datatype event =
    KeyEvent int int int int
  | CursorPosEvent double double
  | WindowSizeEvent int int
  | CloseEvent

record frame =
  events :: "event list"
  gl_errors :: "nat list"

record world =
  create_throws :: "string option"
  startup_gl_errors :: "nat list"
  frames :: "frame list"

text \<open>
  Modelled from the spec: how GLFW and \<open>gps::Window\<close> react to an event is outside
  \<open>main.cpp\<close>. A key, cursor or size event runs the callback that \<open>setWindowCallbacks\<close>
  registered for it. A close request sets the close flag. A change of the window's size
  makes the new size the one that \<open>getWindowDimensions()\<close> returns (the window collaborator
  provides "a way to query current dimensions") before the resize callback runs.
\<close>

fun deliver :: "(camera \<Rightarrow> mat4) \<Rightarrow> event \<Rightarrow> state \<Rightarrow> state" where
  "deliver getViewMatrix (KeyEvent key scancode action mode) s =
     keyboardCallback key scancode action mode s"
| "deliver getViewMatrix (CursorPosEvent xpos ypos) s = mouseCallback getViewMatrix xpos ypos s"
| "deliver getViewMatrix (WindowSizeEvent width height) s =
     windowResizeCallback width height
       (s\<lparr>myWindow := (myWindow s)\<lparr>win_width := width, win_height := height\<rparr>\<rparr>)"
| "deliver getViewMatrix CloseEvent s = s\<lparr>myWindow := (myWindow s)\<lparr>shouldClose := True\<rparr>\<rparr>"

definition glfwPollEvents :: "(camera \<Rightarrow> mat4) \<Rightarrow> event list \<Rightarrow> state \<Rightarrow> state" where
  "glfwPollEvents getViewMatrix evs s = fold (deliver getViewMatrix) evs s"

definition loop_body :: "(camera \<Rightarrow> mat4) \<Rightarrow> frame \<Rightarrow> state \<Rightarrow> state" where
  "loop_body getViewMatrix f s0 =
     (let s = processInput getViewMatrix s0;
          s = renderScene getViewMatrix s;
          s = glfwPollEvents getViewMatrix (events f) s;
          s = gl SwapBuffers s;
          s = glCheckError ''main.cpp'' 650 (gl_errors f) s
      in s)"

text \<open>
  The application loop runs until the close flag is set, which may be never. The result
  is the state reached and whether the loop was left; \<open>False\<close> says that the loop is still
  running when the frames of the input are used up.
\<close>

fun application_loop :: "(camera \<Rightarrow> mat4) \<Rightarrow> frame list \<Rightarrow> state \<Rightarrow> state \<times> bool" where
  "application_loop getViewMatrix [] s = (s, shouldClose (myWindow s))"
| "application_loop getViewMatrix (f # fs) s =
     (if shouldClose (myWindow s) then (s, True)
      else application_loop getViewMatrix fs (loop_body getViewMatrix f s))"

definition startup :: "(camera \<Rightarrow> mat4) \<Rightarrow> nat list \<Rightarrow> state \<Rightarrow> state" where
  "startup getViewMatrix pending s0 =
     (let s = initOpenGLState s0;
          s = initFBO s;
          s = initModels s;
          s = initShaders s;
          s = initUniforms getViewMatrix s;
          s = initSkyBox s;
          s = setWindowCallbacks s;
          s = glCheckError ''main.cpp'' 641 pending s
      in s)"

text \<open>
  \<open>main\<close> returns the final state and the exit status; the status is \<open>None\<close> when \<open>main\<close>
  has not returned because the application loop is still running.
\<close>

definition main :: "(camera \<Rightarrow> mat4) \<Rightarrow> world \<Rightarrow> state \<times> int option" where
  "main getViewMatrix w =
     (case initOpenGLWindow (create_throws w) initial_state of
        Inl what \<Rightarrow> (print_cerr (What what) initial_state, Some EXIT_FAILURE)
      | Inr s0 \<Rightarrow>
          (let s = startup getViewMatrix (startup_gl_errors w) s0
           in case application_loop getViewMatrix (frames w) s of
                (s, False) \<Rightarrow> (s, None)
              | (s, True) \<Rightarrow> (cleanup s, Some EXIT_SUCCESS)))"

section \<open>Observations\<close>

text \<open>
  What the theorems below observe of a state: which calls of the list are uploads of a
  uniform of a given name, which are viewport changes, and whether the location globals
  hold what \<open>initUniforms\<close> assigns to them.
\<close>

definition uniform_named :: "string \<Rightarrow> gl_call \<Rightarrow> bool" where
  "uniform_named name c = (case c of Uniform p (Loc sh n) v \<Rightarrow> n = name | _ \<Rightarrow> False)"

definition is_Viewport :: "gl_call \<Rightarrow> bool" where
  "is_Viewport c = (case c of Viewport x y w h \<Rightarrow> True | _ \<Rightarrow> False)"

definition uniforms_located :: "state \<Rightarrow> bool" where
  "uniforms_located s =
     (modelLoc s = Loc myBasicShader ''model'' \<and>
      viewLoc s = Loc myBasicShader ''view'' \<and>
      normalMatrixLoc s = Loc myBasicShader ''normalMatrix'' \<and>
      projectionLoc s = Loc myBasicShader ''projection'' \<and>
      lightDirLoc s = Loc myBasicShader ''lightDir'' \<and>
      lightColorLoc s = Loc myBasicShader ''lightColor'' \<and>
      pointLightPosLoc s = Loc myBasicShader ''pointLightPos'' \<and>
      isFlatLoc s = Loc myBasicShader ''isFlat'')"

text \<open>The view matrix used where a theorem is instantiated at a concrete input.\<close>

definition fixed_view :: "camera \<Rightarrow> mat4" where
  "fixed_view c = mat4_diag 1"

text \<open>
  The display mode of a state is the polygon mode of OpenGL with the flag \<open>isFlat\<close>;
  \<open>display_modes\<close> are the four combinations that the keys 1 to 4 select.
\<close>

definition display_mode :: "state \<Rightarrow> polygon_mode \<times> int" where
  "display_mode s = (gl_polygonMode s, isFlat s)"

definition display_modes :: "(polygon_mode \<times> int) set" where
  "display_modes = {(GL_FILL, 0), (GL_LINE, 0), (GL_POINT, 0), (GL_FILL, 1)}"

definition mode_ok :: "state \<Rightarrow> bool" where
  "mode_ok s = (display_mode s \<in> display_modes)"

text \<open>
  An input for instances: the window is created, key 4 is pressed in the first frame and
  key 2 in the second.
\<close>

definition four_then_two :: world where
  "four_then_two =
     \<lparr> create_throws = None, startup_gl_errors = [],
       frames = [\<lparr> events = [KeyEvent GLFW_KEY_4 0 GLFW_PRESS 0], gl_errors = [] \<rparr>,
                 \<lparr> events = [KeyEvent GLFW_KEY_2 0 GLFW_PRESS 0], gl_errors = [] \<rparr>,
                 \<lparr> events = [], gl_errors = [] \<rparr>] \<rparr>"

text \<open>
  A call of the camera passes the test \<open>pitch_ok\<close> unless it is a \<open>rotate\<close> with a pitch
  outside \<open>[-89, 89]\<close>; a state has its pitch in range when the global \<open>pitch\<close> lies in
  that interval and every call of the camera made so far passes the test.
\<close>

definition pitch_ok :: "camera_call \<Rightarrow> bool" where
  "pitch_ok c = (case c of Rotate p y \<Rightarrow> - 89 \<le> p \<and> p \<le> 89 | Move d v \<Rightarrow> True)"

definition pitch_in_range :: "state \<Rightarrow> bool" where
  "pitch_in_range s =
     (- 89 \<le> pitch s \<and> pitch s \<le> 89 \<and> list_all pitch_ok (camera_calls (myCamera s)))"

text \<open>
  An input for instances: the window is created, and the cursor (captured since
  \<open>setWindowCallbacks\<close>) jumps by two million pixels between two events of one frame.
\<close>

definition wild_mouse :: world where
  "wild_mouse =
     \<lparr> create_throws = None, startup_gl_errors = [],
       frames = [\<lparr> events = [CursorPosEvent 512 (- 1000000), CursorPosEvent 512 1000000],
                   gl_errors = [] \<rparr>] \<rparr>"

text \<open>
  An input for instances: the window is created, nothing happens in the first frame and
  the Escape key is pressed in the second.
\<close>

definition escape_in_second_frame :: world where
  "escape_in_second_frame =
     \<lparr> create_throws = None, startup_gl_errors = [],
       frames = [\<lparr> events = [], gl_errors = [] \<rparr>,
                 \<lparr> events = [KeyEvent GLFW_KEY_ESCAPE 0 GLFW_PRESS 0], gl_errors = [] \<rparr>] \<rparr>"

text \<open>An input for instances: the window cannot be created.\<close>

definition no_window :: world where
  "no_window =
     \<lparr> create_throws = Some ''Could not create window'', startup_gl_errors = [], frames = [] \<rparr>"

text \<open>
  The state in which \<open>initOpenGLWindow\<close> leaves the initial state when the window is
  created.
\<close>

definition window_created :: state where
  "window_created =
     initial_state\<lparr>myWindow :=
       (myWindow initial_state)\<lparr>created := True, win_width := 1024, win_height := 768\<rparr>\<rparr>"

text \<open>
  A frame asks to close the window when its events hold a close request or a press of the
  Escape key.
\<close>

definition close_request :: "event \<Rightarrow> bool" where
  "close_request e =
     (case e of
        CloseEvent \<Rightarrow> True
      | KeyEvent key scancode action mode \<Rightarrow> key = GLFW_KEY_ESCAPE \<and> action = GLFW_PRESS
      | _ \<Rightarrow> False)"

text \<open>
  \<open>rotated_base_direction theta\<close> is the base direction \<open>(0, 1, 1)\<close> rotated about the y axis
  by \<open>theta\<close> degrees, \<open>rotate(theta) * (0, 1, 1)\<close>; \<open>translation_of m\<close> is the translation of
  the transform \<open>m\<close>, its fourth column.
\<close>

definition rotated_base_direction :: "float \<Rightarrow> vec3" where
  "rotated_base_direction theta =
     vec3_of_vec4 (mat4_mul_vec4 (glm_rotate (mat4_diag 1) (glm_radians theta) (0, 1, 0))
       (0, 1, 1, 0))"

definition translation_of :: "mat4 \<Rightarrow> vec3" where
  "translation_of m = vec3_of_vec4 (snd (snd (snd m)))"

text \<open>The state after \<open>initUniforms\<close>, with the light at angle 0.\<close>

definition uniforms_initialised :: state where
  "uniforms_initialised = initUniforms fixed_view initial_state"

text \<open>
  The L key held for 180 frames and then the J key held for 180 frames: J is released
  and L pressed, \<open>processInput\<close> runs 180 times, L is released and J pressed, and
  \<open>processInput\<close> runs 180 times again.
\<close>

definition light_round_trip :: "(camera \<Rightarrow> mat4) \<Rightarrow> state \<Rightarrow> state" where
  "light_round_trip getViewMatrix s0 =
     (let s = keyboardCallback GLFW_KEY_J 0 GLFW_RELEASE 0 s0;
          s = keyboardCallback GLFW_KEY_L 0 GLFW_PRESS 0 s;
          s = (processInput getViewMatrix ^^ 180) s;
          s = keyboardCallback GLFW_KEY_L 0 GLFW_RELEASE 0 s;
          s = keyboardCallback GLFW_KEY_J 0 GLFW_PRESS 0 s;
          s = (processInput getViewMatrix ^^ 180) s
      in s)"

text \<open>
  The state after the L key is pressed in the initial state and \<open>processInput\<close> has run
  16777206 times, as it does in 16777206 frames with the L key down.
\<close>

definition held_L :: state where
  "held_L =
     (processInput fixed_view ^^ 16777206) (keyboardCallback GLFW_KEY_L 0 GLFW_PRESS 0 initial_state)"

section \<open>The calls of \<open>drawObjects\<close> and \<open>renderScene\<close>\<close>

lemmas glfw_keys =
  GLFW_KEY_SPACE_def GLFW_KEY_1_def GLFW_KEY_2_def GLFW_KEY_3_def GLFW_KEY_4_def
  GLFW_KEY_A_def GLFW_KEY_D_def GLFW_KEY_E_def GLFW_KEY_J_def GLFW_KEY_L_def GLFW_KEY_M_def
  GLFW_KEY_Q_def GLFW_KEY_S_def GLFW_KEY_W_def GLFW_KEY_ESCAPE_def GLFW_KEY_LEFT_SHIFT_def
  GLFW_RELEASE_def GLFW_PRESS_def GLFW_REPEAT_def

lemmas gl_prims =
  gl_def glViewport_def glPolygonMode_def glBindFramebuffer_def useShaderProgram_def
  glGetUniformLocation_def glUniform_def glUniformMatrix4fv_def glUniformMatrix3fv_def
  glUniform3fv_def glUniform1i_def

lemma drawObjects_depth_calls:
  "gl_calls (drawObjects shader True s) =
     gl_calls s @
     [UseProgram shader,
      Uniform (Some shader) (Loc shader ''model'')
        (UMat4 (glm_rotate (mat4_diag 1) (glm_radians (angle s)) (0, 1, 0))),
      Draw nanosuit shader,
      Uniform (Some shader) (Loc shader ''model'')
        (UMat4 (glm_scale (glm_translate (mat4_diag 1) (0, - 1, 0)) (vec3_splat (1 / 2)))),
      Draw ground shader]"
  by (simp add: drawObjects_def Let_def gl_prims)

lemma drawObjects_color_calls:
  "gl_calls (drawObjects shader False s) =
     gl_calls s @
     [UseProgram shader,
      Uniform (Some shader) (Loc shader ''model'')
        (UMat4 (glm_rotate (mat4_diag 1) (glm_radians (angle s)) (0, 1, 0))),
      Uniform (Some shader) (Loc shader ''normalMatrix'')
        (UMat3 (mat3_of_mat4 (glm_inverseTranspose
           (mat4_mul (view s) (glm_rotate (mat4_diag 1) (glm_radians (angle s)) (0, 1, 0)))))),
      Draw nanosuit shader,
      Uniform (Some shader) (Loc shader ''model'')
        (UMat4 (glm_scale (glm_translate (mat4_diag 1) (0, - 1, 0)) (vec3_splat (1 / 2)))),
      Uniform (Some shader) (Loc shader ''normalMatrix'')
        (UMat3 (mat3_of_mat4 (glm_inverseTranspose
           (mat4_mul (view s)
              (glm_scale (glm_translate (mat4_diag 1) (0, - 1, 0)) (vec3_splat (1 / 2))))))),
      Draw ground shader]"
  by (simp add: drawObjects_def Let_def gl_prims)

lemma drawObjects_fields:
  "myWindow (drawObjects shader dp s) = myWindow s"
  "gl_viewport (drawObjects shader dp s) = gl_viewport s"
  "lightAngle (drawObjects shader dp s) = lightAngle s"
  "angle (drawObjects shader dp s) = angle s"
  "view (drawObjects shader dp s) = view s"
  "projection (drawObjects shader dp s) = projection s"
  "isFlat (drawObjects shader dp s) = isFlat s"
  "myCamera (drawObjects shader dp s) = myCamera s"
  "viewLoc (drawObjects shader dp s) = viewLoc s"
  "lightDirLoc (drawObjects shader dp s) = lightDirLoc s"
  "gl_program (drawObjects shader dp s) = Some shader"
  "gl_polygonMode (drawObjects shader dp s) = gl_polygonMode s"
  "pressedKeys (drawObjects shader dp s) = pressedKeys s"
  "pitch (drawObjects shader dp s) = pitch s"
  by (simp_all add: drawObjects_def Let_def gl_prims)

lemma computeLightSpaceTrMatrix_useShaderProgram:
  "computeLightSpaceTrMatrix (s\<lparr>gl_program := p, gl_calls := c\<rparr>) = computeLightSpaceTrMatrix s"
  by (simp add: computeLightSpaceTrMatrix_def computeLightSpaceTrMatrix_lightPos_def
      computeLightSpaceTrMatrix_lightDirN_def)

text \<open>The calls that one \<open>renderScene\<close> makes, in order.\<close>

lemma renderScene_calls:
  "gl_calls (renderScene getViewMatrix s) =
     gl_calls s @
     [UseProgram depthMapShader,
      Uniform (Some depthMapShader) (Loc depthMapShader ''lightSpaceTrMatrix'')
        (UMat4 (computeLightSpaceTrMatrix s)),
      Viewport 0 0 SHADOW_WIDTH SHADOW_HEIGHT,
      BindFramebuffer shadowMapFBO,
      Clear False True,
      UseProgram depthMapShader,
      Uniform (Some depthMapShader) (Loc depthMapShader ''model'')
        (UMat4 (glm_rotate (mat4_diag 1) (glm_radians (angle s)) (0, 1, 0))),
      Draw nanosuit depthMapShader,
      Uniform (Some depthMapShader) (Loc depthMapShader ''model'')
        (UMat4 (glm_scale (glm_translate (mat4_diag 1) (0, - 1, 0)) (vec3_splat (1 / 2)))),
      Draw ground depthMapShader,
      BindFramebuffer default_framebuffer,
      Viewport 0 0 (win_width (myWindow s)) (win_height (myWindow s)),
      Clear True True,
      UseProgram myBasicShader,
      Uniform (Some myBasicShader) (Loc myBasicShader ''isFlat'') (UInt (isFlat s)),
      Uniform (Some myBasicShader) (Loc myBasicShader ''initAlpha'') (UInt 0),
      Uniform (Some myBasicShader) (viewLoc s) (UMat4 (getViewMatrix (myCamera s))),
      Uniform (Some myBasicShader) (Loc myBasicShader ''lightSpaceTrMatrix'')
        (UMat4 (computeLightSpaceTrMatrix s)),
      ActiveTexture 2,
      BindDepthMapTexture,
      Uniform (Some myBasicShader) (Loc myBasicShader ''shadowMap'') (UInt 2),
      Uniform (Some myBasicShader) (lightDirLoc s)
        (UVec3 (vec3_of_vec4 (mat4_mul_vec4
           (glm_rotate (mat4_diag 1) (glm_radians (lightAngle s)) (0, 1, 0)) (0, 1, 1, 0)))),
      UseProgram myBasicShader,
      Uniform (Some myBasicShader) (Loc myBasicShader ''model'')
        (UMat4 (glm_rotate (mat4_diag 1) (glm_radians (angle s)) (0, 1, 0))),
      Uniform (Some myBasicShader) (Loc myBasicShader ''normalMatrix'')
        (UMat3 (mat3_of_mat4 (glm_inverseTranspose
           (mat4_mul (getViewMatrix (myCamera s))
              (glm_rotate (mat4_diag 1) (glm_radians (angle s)) (0, 1, 0)))))),
      Draw nanosuit myBasicShader,
      Uniform (Some myBasicShader) (Loc myBasicShader ''model'')
        (UMat4 (glm_scale (glm_translate (mat4_diag 1) (0, - 1, 0)) (vec3_splat (1 / 2)))),
      Uniform (Some myBasicShader) (Loc myBasicShader ''normalMatrix'')
        (UMat3 (mat3_of_mat4 (glm_inverseTranspose
           (mat4_mul (getViewMatrix (myCamera s))
              (glm_scale (glm_translate (mat4_diag 1) (0, - 1, 0)) (vec3_splat (1 / 2))))))),
      Draw ground myBasicShader,
      UseProgram lightShader,
      Uniform (Some lightShader) (Loc lightShader ''view'') (UMat4 (getViewMatrix (myCamera s))),
      Uniform (Some lightShader) (Loc lightShader ''projection'') (UMat4 (projection s)),
      Uniform (Some lightShader) (Loc lightShader ''model'')
        (UMat4 (glm_scale
           (glm_translate (glm_rotate (mat4_diag 1) (glm_radians (lightAngle s)) (0, 1, 0))
              (vec3_scale (0, 1, 1) 10))
           (1 / 2, 1 / 2, 1 / 2))),
      Draw lightCube lightShader,
      DrawSkyBox skyboxShader (getViewMatrix (myCamera s)) (projection s)]"
  by (simp add: renderScene_def Let_def gl_prims drawObjects_fields drawObjects_depth_calls
      drawObjects_color_calls computeLightSpaceTrMatrix_useShaderProgram)

lemma renderScene_fields:
  "myWindow (renderScene getViewMatrix s) = myWindow s"
  "gl_viewport (renderScene getViewMatrix s) =
     (0, 0, win_width (myWindow s), win_height (myWindow s))"
  "lightAngle (renderScene getViewMatrix s) = lightAngle s"
  "isFlat (renderScene getViewMatrix s) = isFlat s"
  "myCamera (renderScene getViewMatrix s) = myCamera s"
  "gl_polygonMode (renderScene getViewMatrix s) = gl_polygonMode s"
  "pressedKeys (renderScene getViewMatrix s) = pressedKeys s"
  "pitch (renderScene getViewMatrix s) = pitch s"
  by (simp_all add: renderScene_def Let_def gl_prims drawObjects_fields)

lemma initUniforms_located: "uniforms_located (initUniforms getViewMatrix s)"
  by (simp add: initUniforms_def uniforms_located_def Let_def gl_prims)

section \<open>The two passes of a frame\<close>

text \<open>
  C1: within one \<open>renderScene\<close>, the light-space matrix uploaded to the depth-pass shader
  (uniform \<open>lightSpaceTrMatrix\<close>, while \<open>depthMapShader\<close> is in use) and the one uploaded to
  the colour-pass shader (the same uniform of \<open>myBasicShader\<close>) are the same value:
  \<open>computeLightSpaceTrMatrix\<close> evaluated once, in the state at the start of the frame. These
  two are the only uploads of a uniform of that name in the frame. The location globals
  hold what \<open>initUniforms\<close> assigned.
\<close>

theorem renderScene_lightSpaceTrMatrix:
  assumes "uniforms_located s"
  shows "filter (uniform_named ''lightSpaceTrMatrix'') (gl_calls (renderScene getViewMatrix s)) =
           filter (uniform_named ''lightSpaceTrMatrix'') (gl_calls s) @
           [Uniform (Some depthMapShader) (Loc depthMapShader ''lightSpaceTrMatrix'')
              (UMat4 (computeLightSpaceTrMatrix s)),
            Uniform (Some myBasicShader) (Loc myBasicShader ''lightSpaceTrMatrix'')
              (UMat4 (computeLightSpaceTrMatrix s))]"
  using assms by (simp add: renderScene_calls uniform_named_def uniforms_located_def)

theorem renderScene_lightSpaceTrMatrix_witness:
  "uniforms_located (initUniforms fixed_view initial_state) \<and>
   filter (uniform_named ''lightSpaceTrMatrix'')
     (gl_calls (renderScene fixed_view (initUniforms fixed_view initial_state))) =
     filter (uniform_named ''lightSpaceTrMatrix'') (gl_calls (initUniforms fixed_view initial_state)) @
     [Uniform (Some depthMapShader) (Loc depthMapShader ''lightSpaceTrMatrix'')
        (UMat4 (computeLightSpaceTrMatrix (initUniforms fixed_view initial_state))),
      Uniform (Some myBasicShader) (Loc myBasicShader ''lightSpaceTrMatrix'')
        (UMat4 (computeLightSpaceTrMatrix (initUniforms fixed_view initial_state)))]"
  using renderScene_lightSpaceTrMatrix [OF initUniforms_located, of fixed_view fixed_view initial_state]
    initUniforms_located [of fixed_view initial_state]
  by simp

text \<open>
  C5: after a complete \<open>renderScene\<close> the OpenGL viewport is the rectangle of the window's
  dimensions, as \<open>myWindow.getWindowDimensions()\<close> returns them; \<open>renderScene\<close> does not
  change the window, and it changes the viewport exactly twice: to the resolution of the
  shadow map (2048 x 2048) for the depth pass, and back to the window's dimensions.
\<close>

theorem renderScene_viewport:
  "gl_viewport (renderScene getViewMatrix s) =
     (0, 0, win_width (myWindow s), win_height (myWindow s)) \<and>
   myWindow (renderScene getViewMatrix s) = myWindow s \<and>
   filter is_Viewport (gl_calls (renderScene getViewMatrix s)) =
     filter is_Viewport (gl_calls s) @
     [Viewport 0 0 2048 2048, Viewport 0 0 (win_width (myWindow s)) (win_height (myWindow s))]"
  by (simp add: renderScene_fields renderScene_calls is_Viewport_def SHADOW_WIDTH_def
      SHADOW_HEIGHT_def)

text \<open>
  C8: \<open>drawObjects\<close> with \<open>depthPass = true\<close> leaves the global \<open>normalMatrix\<close> unchanged
  and uploads no uniform named \<open>normalMatrix\<close>: its calls are the model matrix and the
  draw call of each of the two objects. With \<open>depthPass = false\<close> it computes the normal
  matrix \<open>mat3(inverseTranspose(view * model))\<close> from the model matrix of each object and
  uploads it before that object's draw call; the global is left at the value of the last
  object.
\<close>

theorem drawObjects_normalMatrix:
  "normalMatrix (drawObjects shader True s) = normalMatrix s \<and>
   gl_calls (drawObjects shader True s) =
     gl_calls s @
     [UseProgram shader,
      Uniform (Some shader) (Loc shader ''model'')
        (UMat4 (glm_rotate (mat4_diag 1) (glm_radians (angle s)) (0, 1, 0))),
      Draw nanosuit shader,
      Uniform (Some shader) (Loc shader ''model'')
        (UMat4 (glm_scale (glm_translate (mat4_diag 1) (0, - 1, 0)) (vec3_splat (1 / 2)))),
      Draw ground shader] \<and>
   filter (uniform_named ''normalMatrix'') (gl_calls (drawObjects shader True s)) =
     filter (uniform_named ''normalMatrix'') (gl_calls s) \<and>
   gl_calls (drawObjects shader False s) =
     gl_calls s @
     [UseProgram shader,
      Uniform (Some shader) (Loc shader ''model'')
        (UMat4 (glm_rotate (mat4_diag 1) (glm_radians (angle s)) (0, 1, 0))),
      Uniform (Some shader) (Loc shader ''normalMatrix'')
        (UMat3 (mat3_of_mat4 (glm_inverseTranspose
           (mat4_mul (view s) (glm_rotate (mat4_diag 1) (glm_radians (angle s)) (0, 1, 0)))))),
      Draw nanosuit shader,
      Uniform (Some shader) (Loc shader ''model'')
        (UMat4 (glm_scale (glm_translate (mat4_diag 1) (0, - 1, 0)) (vec3_splat (1 / 2)))),
      Uniform (Some shader) (Loc shader ''normalMatrix'')
        (UMat3 (mat3_of_mat4 (glm_inverseTranspose
           (mat4_mul (view s)
              (glm_scale (glm_translate (mat4_diag 1) (0, - 1, 0)) (vec3_splat (1 / 2))))))),
      Draw ground shader] \<and>
   normalMatrix (drawObjects shader False s) =
     mat3_of_mat4 (glm_inverseTranspose
       (mat4_mul (view s)
          (glm_scale (glm_translate (mat4_diag 1) (0, - 1, 0)) (vec3_splat (1 / 2)))))"
proof -
  have "normalMatrix (drawObjects shader True s) = normalMatrix s"
    by (simp add: drawObjects_def Let_def gl_prims)
  moreover have "normalMatrix (drawObjects shader False s) =
     mat3_of_mat4 (glm_inverseTranspose
       (mat4_mul (view s)
          (glm_scale (glm_translate (mat4_diag 1) (0, - 1, 0)) (vec3_splat (1 / 2)))))"
    by (simp add: drawObjects_def Let_def gl_prims)
  moreover have "filter (uniform_named ''normalMatrix'') (gl_calls (drawObjects shader True s)) =
     filter (uniform_named ''normalMatrix'') (gl_calls s)"
    by (simp add: drawObjects_depth_calls uniform_named_def)
  ultimately show ?thesis
    using drawObjects_depth_calls [of shader s] drawObjects_color_calls [of shader s]
    by simp
qed

section \<open>The keyboard\<close>

text \<open>
  C10: \<open>keyboardCallback\<close> with a key code outside \<open>[0, 1024)\<close> leaves \<open>pressedKeys\<close> as it
  is (\<open>GLFW_KEY_UNKNOWN\<close> is \<open>-1\<close>). With a key code inside the range, a press sets the
  entry \<open>pressedKeys[key]\<close> to true and a release sets it to false, and no other entry
  changes; any other action changes nothing. The index written is below 1024, the length
  of the array, which never changes.
\<close>

theorem keyboardCallback_pressedKeys:
  "(\<not> (0 \<le> key \<and> key < 1024) \<longrightarrow>
      pressedKeys (keyboardCallback key scancode action mode s) = pressedKeys s) \<and>
   (0 \<le> key \<and> key < 1024 \<and> action = GLFW_PRESS \<longrightarrow>
      pressedKeys (keyboardCallback key scancode action mode s) = (pressedKeys s)[nat key := True]) \<and>
   (0 \<le> key \<and> key < 1024 \<and> action = GLFW_RELEASE \<longrightarrow>
      pressedKeys (keyboardCallback key scancode action mode s) = (pressedKeys s)[nat key := False]) \<and>
   (action \<noteq> GLFW_PRESS \<and> action \<noteq> GLFW_RELEASE \<longrightarrow>
      pressedKeys (keyboardCallback key scancode action mode s) = pressedKeys s) \<and>
   length (pressedKeys (keyboardCallback key scancode action mode s)) = length (pressedKeys s)"
  by (simp add: keyboardCallback_def Let_def glfw_keys)

theorem keyboardCallback_pressedKeys_witness:
  "pressedKeys (keyboardCallback (- 1) 0 GLFW_PRESS 0 initial_state) = replicate 1024 False \<and>
   pressedKeys (keyboardCallback 1024 0 GLFW_PRESS 0 initial_state) = replicate 1024 False \<and>
   pressedKeys (keyboardCallback GLFW_KEY_W 0 GLFW_PRESS 0 initial_state) =
     (replicate 1024 False)[87 := True] \<and>
   pressedKeys (keyboardCallback GLFW_KEY_W 0 GLFW_REPEAT 0 initial_state) = replicate 1024 False"
  using keyboardCallback_pressedKeys [of "- 1" 0 GLFW_PRESS 0 initial_state]
    keyboardCallback_pressedKeys [of 1024 0 GLFW_PRESS 0 initial_state]
    keyboardCallback_pressedKeys [of GLFW_KEY_W 0 GLFW_PRESS 0 initial_state]
    keyboardCallback_pressedKeys [of GLFW_KEY_W 0 GLFW_REPEAT 0 initial_state]
  by (simp add: glfw_keys initial_state_def)

section \<open>The display mode\<close>

lemma display_mode_gl: "display_mode (gl c s) = display_mode s"
  by (simp add: display_mode_def gl_def)

lemma display_mode_move_block: "display_mode (move_block g d s) = display_mode s"
  by (simp add: move_block_def display_mode_def Let_def gl_prims)

lemma display_mode_rotate_block: "display_mode (rotate_block d s) = display_mode s"
  by (simp add: rotate_block_def display_mode_def Let_def gl_prims)

lemma display_mode_lightAngle: "display_mode (s\<lparr>lightAngle := a\<rparr>) = display_mode s"
  by (simp add: display_mode_def)

lemma display_mode_if_pressed_same:
  "(\<And>s. display_mode (body s) = display_mode s) \<Longrightarrow>
   display_mode (if_pressed k body s) = display_mode s"
  by (simp add: if_pressed_def)

lemma display_mode_if_pressed_set:
  "display_mode (if_pressed k (\<lambda>s. (glPolygonMode m s)\<lparr>isFlat := v\<rparr>) s) =
     (if pressedKeys s ! nat k then (m, v) else display_mode s)"
  by (simp add: if_pressed_def display_mode_def gl_prims)

lemma pressedKeys_move_block: "pressedKeys (move_block g d s) = pressedKeys s"
  by (simp add: move_block_def Let_def gl_prims)

lemma pressedKeys_rotate_block: "pressedKeys (rotate_block d s) = pressedKeys s"
  by (simp add: rotate_block_def Let_def gl_prims)

lemma pressedKeys_if_pressed:
  "(\<And>s. pressedKeys (body s) = pressedKeys s) \<Longrightarrow>
   pressedKeys (if_pressed k body s) = pressedKeys s"
  by (simp add: if_pressed_def)

lemma pressedKeys_set_mode: "pressedKeys ((glPolygonMode m s)\<lparr>isFlat := v\<rparr>) = pressedKeys s"
  by (simp add: gl_prims)

lemma pressedKeys_processInput: "pressedKeys (processInput g s) = pressedKeys s"
  by (simp add: processInput_def Let_def pressedKeys_if_pressed pressedKeys_move_block
      pressedKeys_rotate_block pressedKeys_set_mode)

lemma display_mode_processInput:
  "display_mode (processInput g s) =
     (if pressedKeys s ! nat GLFW_KEY_4 then (GL_FILL, 1)
      else if pressedKeys s ! nat GLFW_KEY_3 then (GL_POINT, 0)
      else if pressedKeys s ! nat GLFW_KEY_2 then (GL_LINE, 0)
      else if pressedKeys s ! nat GLFW_KEY_1 then (GL_FILL, 0)
      else display_mode s)"
  by (simp add: processInput_def Let_def display_mode_if_pressed_same
      display_mode_if_pressed_set display_mode_move_block display_mode_rotate_block
      display_mode_lightAngle pressedKeys_if_pressed pressedKeys_move_block
      pressedKeys_rotate_block pressedKeys_set_mode)

lemma mode_ok_processInput: "mode_ok s \<Longrightarrow> mode_ok (processInput g s)"
  by (simp add: mode_ok_def display_mode_processInput) (simp add: display_modes_def)

lemma display_mode_renderScene: "display_mode (renderScene g s) = display_mode s"
  by (simp add: display_mode_def renderScene_fields)

lemma display_mode_keyboardCallback: "display_mode (keyboardCallback k sc a m s) = display_mode s"
  by (simp add: display_mode_def keyboardCallback_def Let_def)

lemma display_mode_mouseCallback: "display_mode (mouseCallback g x y s) = display_mode s"
  by (simp add: display_mode_def mouseCallback_def Let_def gl_prims)

lemma display_mode_windowResizeCallback: "display_mode (windowResizeCallback w h s) = display_mode s"
  by (simp add: display_mode_def windowResizeCallback_def Let_def gl_prims print_cout_def)

lemma display_mode_deliver: "display_mode (deliver g e s) = display_mode s"
  by (cases e)
     (simp_all add: display_mode_keyboardCallback display_mode_mouseCallback
        display_mode_windowResizeCallback,
      simp_all add: display_mode_def)

lemma display_mode_glfwPollEvents: "display_mode (glfwPollEvents g evs s) = display_mode s"
  unfolding glfwPollEvents_def
  by (induction evs arbitrary: s) (simp_all add: display_mode_deliver)

lemma display_mode_glCheckError: "display_mode (glCheckError file line pending s) = display_mode s"
proof -
  have "display_mode (fold (\<lambda>e. print_cout (GLError (error_name e) file line)) xs s) = display_mode s"
    for xs
    by (induction xs arbitrary: s) (simp_all add: display_mode_def print_cout_def)
  then show ?thesis by (simp add: glCheckError_def)
qed

lemma display_mode_loop_body:
  "display_mode (loop_body g f s) = display_mode (processInput g s)"
  by (simp add: loop_body_def Let_def display_mode_glCheckError
      display_mode_glfwPollEvents display_mode_renderScene display_mode_gl)

lemma mode_ok_loop_body: "mode_ok s \<Longrightarrow> mode_ok (loop_body g f s)"
  using mode_ok_processInput [of s g] by (simp add: mode_ok_def display_mode_loop_body)

lemma mode_ok_application_loop: "mode_ok s \<Longrightarrow> mode_ok (fst (application_loop g fs s))"
  by (induction fs arbitrary: s) (simp_all add: mode_ok_loop_body)

lemma display_mode_inits:
  "display_mode (initOpenGLState s) = display_mode s"
  "display_mode (initFBO s) = display_mode s"
  "display_mode (initModels s) = display_mode s"
  "display_mode (initShaders s) = display_mode s"
  "display_mode (initUniforms g s) = display_mode s"
  "display_mode (initSkyBox s) = display_mode s"
  "display_mode (setWindowCallbacks s) = display_mode s"
  by (simp_all add: display_mode_def initOpenGLState_def initFBO_def initModels_def
      initShaders_def initUniforms_def initSkyBox_def setWindowCallbacks_def Let_def gl_prims)

lemma display_mode_startup: "display_mode (startup g pending s) = display_mode s"
  by (simp add: startup_def Let_def display_mode_glCheckError display_mode_inits)

lemma display_mode_initial: "display_mode initial_state = (GL_FILL, 0)"
  by (simp add: display_mode_def initial_state_def)

lemma mode_ok_main: "mode_ok (fst (main g w))"
proof (cases "create_throws w")
  case None
  let ?s0 = "initial_state\<lparr>myWindow := (myWindow initial_state)\<lparr>created := True, win_width := 1024, win_height := 768\<rparr>\<rparr>"
  let ?s = "startup g (startup_gl_errors w) ?s0"
  have "display_mode ?s = (GL_FILL, 0)"
    by (simp add: display_mode_startup) (simp add: display_mode_def initial_state_def)
  then have ok: "mode_ok ?s" by (simp add: mode_ok_def display_modes_def)
  obtain s' b where ab: "application_loop g (frames w) ?s = (s', b)"
    by (cases "application_loop g (frames w) ?s")
  from mode_ok_application_loop [OF ok, of g "frames w"] ab have "mode_ok s'" by simp
  then have "mode_ok (gl c s')" for c by (simp add: mode_ok_def display_mode_gl)
  with \<open>mode_ok s'\<close> ab None show ?thesis
    by (cases b) (simp_all add: main_def initOpenGLWindow_def Window_Create_def cleanup_def)
next
  case (Some what)
  then show ?thesis
    by (simp add: main_def initOpenGLWindow_def Window_Create_def mode_ok_def display_mode_def
        display_modes_def print_cerr_def initial_state_def)
qed

lemma pressedKeys_keyboardCallback:
  "pressedKeys (keyboardCallback key scancode action mode s) =
     (if 0 \<le> key \<and> key < 1024 \<and> action = GLFW_PRESS then (pressedKeys s)[nat key := True]
      else if 0 \<le> key \<and> key < 1024 \<and> action = GLFW_RELEASE then (pressedKeys s)[nat key := False]
      else pressedKeys s)"
  by (simp add: keyboardCallback_def Let_def glfw_keys)

text \<open>
  C7, as the code has it: the display mode starts as (fill, smooth), and whatever the
  input, it is one of the four combinations (fill, smooth), (line, smooth),
  (point, smooth), (fill, flat) when \<open>main\<close> returns or the frames of the input are used
  up; every iteration of the application loop keeps it among the four, so flat shading
  never occurs with the line or the point mode. \<open>processInput\<close> polls the keys 1, 2, 3, 4
  in this order in every frame, so the key with the highest number that is down selects
  the mode of the frame, and the mode stays as it is when none of the four is down. With
  the keys 3 and 4 up, a frame with key 2 down selects (line, smooth), and once key 2 is
  released, a frame with key 1 down returns to (fill, smooth).
\<close>

theorem display_mode_invariant:
  "display_mode initial_state = (GL_FILL, 0) \<and>
   display_mode (fst (main getViewMatrix w)) \<in> display_modes \<and>
   (display_mode s \<in> display_modes \<longrightarrow>
      display_mode (loop_body getViewMatrix f s) \<in> display_modes) \<and>
   display_mode (processInput getViewMatrix s) =
     (if pressedKeys s ! nat GLFW_KEY_4 then (GL_FILL, 1)
      else if pressedKeys s ! nat GLFW_KEY_3 then (GL_POINT, 0)
      else if pressedKeys s ! nat GLFW_KEY_2 then (GL_LINE, 0)
      else if pressedKeys s ! nat GLFW_KEY_1 then (GL_FILL, 0)
      else display_mode s) \<and>
   display_mode (loop_body getViewMatrix f s) = display_mode (processInput getViewMatrix s) \<and>
   (length (pressedKeys s) = 1024 \<and> \<not> pressedKeys s ! nat GLFW_KEY_3 \<and>
    \<not> pressedKeys s ! nat GLFW_KEY_4 \<longrightarrow>
      display_mode (processInput getViewMatrix (keyboardCallback GLFW_KEY_2 sc GLFW_PRESS m s)) =
        (GL_LINE, 0) \<and>
      display_mode
        (processInput getViewMatrix
          (keyboardCallback GLFW_KEY_1 sc GLFW_PRESS m
            (keyboardCallback GLFW_KEY_2 sc GLFW_RELEASE m
              (processInput getViewMatrix (keyboardCallback GLFW_KEY_2 sc GLFW_PRESS m s))))) =
        (GL_FILL, 0))"
proof -
  have "display_mode (fst (main getViewMatrix w)) \<in> display_modes"
    using mode_ok_main [of getViewMatrix w] by (simp add: mode_ok_def)
  moreover have "display_mode s \<in> display_modes \<longrightarrow>
      display_mode (loop_body getViewMatrix f s) \<in> display_modes"
    using mode_ok_loop_body [of s getViewMatrix f] by (simp add: mode_ok_def)
  moreover have "length (pressedKeys s) = 1024 \<and> \<not> pressedKeys s ! nat GLFW_KEY_3 \<and>
    \<not> pressedKeys s ! nat GLFW_KEY_4 \<longrightarrow>
      display_mode (processInput getViewMatrix (keyboardCallback GLFW_KEY_2 sc GLFW_PRESS m s)) =
        (GL_LINE, 0) \<and>
      display_mode
        (processInput getViewMatrix
          (keyboardCallback GLFW_KEY_1 sc GLFW_PRESS m
            (keyboardCallback GLFW_KEY_2 sc GLFW_RELEASE m
              (processInput getViewMatrix (keyboardCallback GLFW_KEY_2 sc GLFW_PRESS m s))))) =
        (GL_FILL, 0)"
    by (simp add: display_mode_processInput pressedKeys_processInput
        pressedKeys_keyboardCallback glfw_keys)
  ultimately show ?thesis
    using display_mode_processInput [of getViewMatrix s]
      display_mode_loop_body [of getViewMatrix f s]
    by (simp only: display_mode_initial simp_thms)
qed

theorem display_mode_invariant_witness:
  "display_mode (fst (main fixed_view four_then_two)) \<in> display_modes \<and>
   display_mode initial_state \<in> display_modes \<and>
   display_mode (loop_body fixed_view \<lparr> events = [], gl_errors = [] \<rparr> initial_state)
     \<in> display_modes \<and>
   display_mode (processInput fixed_view initial_state) = (GL_FILL, 0) \<and>
   length (pressedKeys initial_state) = 1024 \<and>
   \<not> pressedKeys initial_state ! nat GLFW_KEY_3 \<and>
   \<not> pressedKeys initial_state ! nat GLFW_KEY_4 \<and>
   display_mode
     (processInput fixed_view
       (keyboardCallback GLFW_KEY_1 0 GLFW_PRESS 0
         (keyboardCallback GLFW_KEY_2 0 GLFW_RELEASE 0
           (processInput fixed_view (keyboardCallback GLFW_KEY_2 0 GLFW_PRESS 0 initial_state))))) =
     (GL_FILL, 0)"
proof -
  have keys: "length (pressedKeys initial_state) = 1024 \<and>
      \<not> pressedKeys initial_state ! nat GLFW_KEY_1 \<and>
      \<not> pressedKeys initial_state ! nat GLFW_KEY_2 \<and>
      \<not> pressedKeys initial_state ! nat GLFW_KEY_3 \<and>
      \<not> pressedKeys initial_state ! nat GLFW_KEY_4"
    by (simp add: initial_state_def glfw_keys)
  have init: "display_mode initial_state \<in> display_modes"
    "display_mode initial_state = (GL_FILL, 0)"
    by (simp_all add: display_mode_def display_modes_def initial_state_def)
  show ?thesis
    using display_mode_invariant [of fixed_view four_then_two initial_state
        "\<lparr> events = [], gl_errors = [] \<rparr>" 0 0] keys init
    by simp
qed

text \<open>
  The claim C7 as stated fails where key 1 is pressed while key 2 is still down: key 2 is
  polled after key 1 in the same frame, and the mode stays (line, smooth) instead of
  returning to (fill, smooth).
\<close>

theorem key_1_with_key_2_held:
  "display_mode
     (processInput fixed_view
       (keyboardCallback GLFW_KEY_1 0 GLFW_PRESS 0
         (processInput fixed_view (keyboardCallback GLFW_KEY_2 0 GLFW_PRESS 0 initial_state)))) =
     (GL_LINE, 0) \<and>
   display_mode
     (processInput fixed_view
       (keyboardCallback GLFW_KEY_1 0 GLFW_PRESS 0
         (processInput fixed_view (keyboardCallback GLFW_KEY_2 0 GLFW_PRESS 0 initial_state)))) \<noteq>
     (GL_FILL, 0)"
  by (simp add: display_mode_processInput pressedKeys_processInput
      pressedKeys_keyboardCallback glfw_keys initial_state_def)

section \<open>The pitch of the camera\<close>

lemma mouseCallback_pitch:
  "cursorMode (myWindow s) \<noteq> GLFW_CURSOR_NORMAL \<Longrightarrow>
   - 89 \<le> pitch (mouseCallback g x y s) \<and> pitch (mouseCallback g x y s) \<le> 89 \<and>
   camera_calls (myCamera (mouseCallback g x y s)) =
     camera_calls (myCamera s) @
     [Rotate (pitch (mouseCallback g x y s)) (yaw (mouseCallback g x y s))]"
  by (simp add: mouseCallback_def Let_def gl_prims camera_rotate_def)

lemma mouseCallback_calls_ok:
  assumes "list_all pitch_ok (camera_calls (myCamera s))"
  shows "list_all pitch_ok (camera_calls (myCamera (mouseCallback g x y s)))"
proof (cases "cursorMode (myWindow s) = GLFW_CURSOR_NORMAL")
  case True
  with assms show ?thesis by (simp add: mouseCallback_def)
next
  case False
  from mouseCallback_pitch [OF False, of g x y] assms show ?thesis
    by (simp add: pitch_ok_def)
qed

lemma pitch_in_range_mouseCallback:
  assumes "pitch_in_range s"
  shows "pitch_in_range (mouseCallback g x y s)"
proof (cases "cursorMode (myWindow s) = GLFW_CURSOR_NORMAL")
  case True
  with assms show ?thesis by (simp add: mouseCallback_def)
next
  case False
  with mouseCallback_pitch [OF False, of g x y] assms show ?thesis
    by (simp add: pitch_in_range_def pitch_ok_def)
qed

lemma pitch_in_range_gl: "pitch_in_range (gl c s) = pitch_in_range s"
  by (simp add: pitch_in_range_def gl_def)

lemma pitch_in_range_move_block: "pitch_in_range s \<Longrightarrow> pitch_in_range (move_block g d s)"
  by (simp add: pitch_in_range_def move_block_def Let_def gl_prims camera_move_def pitch_ok_def)

lemma pitch_in_range_rotate_block: "pitch_in_range (rotate_block d s) = pitch_in_range s"
  by (simp add: pitch_in_range_def rotate_block_def Let_def)

lemma pitch_in_range_if_pressed:
  "(\<And>s. pitch_in_range s \<Longrightarrow> pitch_in_range (body s)) \<Longrightarrow> pitch_in_range s \<Longrightarrow>
   pitch_in_range (if_pressed k body s)"
  by (simp add: if_pressed_def)

lemma pitch_in_range_processInput: "pitch_in_range s \<Longrightarrow> pitch_in_range (processInput g s)"
  unfolding processInput_def Let_def
  by (intro pitch_in_range_if_pressed pitch_in_range_move_block)
     (simp_all add: pitch_in_range_rotate_block, simp_all add: pitch_in_range_def gl_prims)

lemma pitch_in_range_renderScene: "pitch_in_range (renderScene g s) = pitch_in_range s"
  by (simp add: pitch_in_range_def renderScene_fields)

lemma pitch_in_range_keyboardCallback:
  "pitch_in_range (keyboardCallback k sc a m s) = pitch_in_range s"
  by (simp add: pitch_in_range_def keyboardCallback_def Let_def)

lemma pitch_in_range_windowResizeCallback:
  "pitch_in_range (windowResizeCallback w h s) = pitch_in_range s"
  by (simp add: pitch_in_range_def windowResizeCallback_def Let_def gl_prims print_cout_def)

lemma pitch_in_range_deliver: "pitch_in_range s \<Longrightarrow> pitch_in_range (deliver g e s)"
  by (cases e)
     (simp_all add: pitch_in_range_keyboardCallback pitch_in_range_mouseCallback
        pitch_in_range_windowResizeCallback,
      simp_all add: pitch_in_range_def)

lemma pitch_in_range_glfwPollEvents:
  "pitch_in_range s \<Longrightarrow> pitch_in_range (glfwPollEvents g evs s)"
  unfolding glfwPollEvents_def
  by (induction evs arbitrary: s) (simp_all add: pitch_in_range_deliver)

lemma pitch_in_range_glCheckError:
  "pitch_in_range (glCheckError file line pending s) = pitch_in_range s"
proof -
  have "pitch_in_range (fold (\<lambda>e. print_cout (GLError (error_name e) file line)) xs s) =
      pitch_in_range s" for xs
    by (induction xs arbitrary: s) (simp_all add: pitch_in_range_def print_cout_def)
  then show ?thesis by (simp add: glCheckError_def)
qed

lemma pitch_in_range_loop_body: "pitch_in_range s \<Longrightarrow> pitch_in_range (loop_body g f s)"
  by (simp add: loop_body_def Let_def pitch_in_range_glCheckError pitch_in_range_gl
      pitch_in_range_glfwPollEvents pitch_in_range_renderScene pitch_in_range_processInput)

lemma pitch_in_range_application_loop:
  "pitch_in_range s \<Longrightarrow> pitch_in_range (fst (application_loop g fs s))"
  by (induction fs arbitrary: s) (simp_all add: pitch_in_range_loop_body)

lemma pitch_in_range_inits:
  "pitch_in_range (initOpenGLState s) = pitch_in_range s"
  "pitch_in_range (initFBO s) = pitch_in_range s"
  "pitch_in_range (initModels s) = pitch_in_range s"
  "pitch_in_range (initShaders s) = pitch_in_range s"
  "pitch_in_range (initUniforms g s) = pitch_in_range s"
  "pitch_in_range (initSkyBox s) = pitch_in_range s"
  "pitch_in_range (setWindowCallbacks s) = pitch_in_range s"
  by (simp_all add: pitch_in_range_def initOpenGLState_def initFBO_def initModels_def
      initShaders_def initUniforms_def initSkyBox_def setWindowCallbacks_def Let_def gl_prims)

lemma pitch_in_range_startup: "pitch_in_range (startup g pending s) = pitch_in_range s"
  by (simp add: startup_def Let_def pitch_in_range_glCheckError pitch_in_range_inits)

lemma pitch_in_range_main: "pitch_in_range (fst (main g w))"
proof (cases "create_throws w")
  case None
  let ?s0 = "initial_state\<lparr>myWindow := (myWindow initial_state)\<lparr>created := True, win_width := 1024, win_height := 768\<rparr>\<rparr>"
  let ?s = "startup g (startup_gl_errors w) ?s0"
  have ok: "pitch_in_range ?s"
    by (simp add: pitch_in_range_startup) (simp add: pitch_in_range_def initial_state_def)
  obtain s' b where ab: "application_loop g (frames w) ?s = (s', b)"
    by (cases "application_loop g (frames w) ?s")
  from pitch_in_range_application_loop [OF ok, of g "frames w"] ab have "pitch_in_range s'" by simp
  with ab None show ?thesis
    by (cases b)
       (simp_all add: main_def initOpenGLWindow_def Window_Create_def cleanup_def pitch_in_range_gl)
next
  case (Some what)
  then show ?thesis
    by (simp add: main_def initOpenGLWindow_def Window_Create_def pitch_in_range_def
        print_cerr_def initial_state_def)
qed

lemma fold_mouseCallback_calls_ok:
  "list_all pitch_ok (camera_calls (myCamera s)) \<Longrightarrow>
   list_all pitch_ok (camera_calls (myCamera (fold (\<lambda>(x, y). mouseCallback g x y) evs s)))"
  by (induction evs arbitrary: s) (auto simp add: mouseCallback_calls_ok)

text \<open>
  C4: whatever the input, when \<open>main\<close> returns or the frames of the input are used up, the
  global \<open>pitch\<close> lies in \<open>[-89, 89]\<close> and so does the pitch of every \<open>Camera::rotate\<close> call
  made. Any sequence of \<open>mouseCallback\<close> calls with any cursor positions keeps the pitch of
  every \<open>rotate\<close> call in that interval; a call of \<open>mouseCallback\<close> while the cursor is not in
  the normal mode leaves \<open>pitch\<close> in the interval and passes exactly that value to
  \<open>rotate\<close>. Cursor positions are real numbers: GLFW reports no NaN and no infinity.
\<close>

theorem mouse_pitch_clamped:
  "pitch_in_range (fst (main getViewMatrix w)) \<and>
   (list_all pitch_ok (camera_calls (myCamera s)) \<longrightarrow>
      list_all pitch_ok
        (camera_calls (myCamera (fold (\<lambda>(x, y). mouseCallback getViewMatrix x y) evs s)))) \<and>
   (cursorMode (myWindow s) \<noteq> GLFW_CURSOR_NORMAL \<longrightarrow>
      - 89 \<le> pitch (mouseCallback getViewMatrix xpos ypos s) \<and>
      pitch (mouseCallback getViewMatrix xpos ypos s) \<le> 89 \<and>
      camera_calls (myCamera (mouseCallback getViewMatrix xpos ypos s)) =
        camera_calls (myCamera s) @
        [Rotate (pitch (mouseCallback getViewMatrix xpos ypos s))
           (yaw (mouseCallback getViewMatrix xpos ypos s))])"
  using pitch_in_range_main [of getViewMatrix w]
    fold_mouseCallback_calls_ok [of s getViewMatrix evs]
    mouseCallback_pitch [of s getViewMatrix xpos ypos]
  by blast

theorem mouse_pitch_clamped_witness:
  "pitch_in_range (fst (main fixed_view wild_mouse)) \<and>
   list_all pitch_ok (camera_calls (myCamera (setWindowCallbacks initial_state))) \<and>
   list_all pitch_ok
     (camera_calls (myCamera
        (fold (\<lambda>(x, y). mouseCallback fixed_view x y) [(512, - 1000000), (512, 1000000)]
           (setWindowCallbacks initial_state)))) \<and>
   cursorMode (myWindow (setWindowCallbacks initial_state)) \<noteq> GLFW_CURSOR_NORMAL \<and>
   - 89 \<le> pitch (mouseCallback fixed_view 512 (- 1000000) (setWindowCallbacks initial_state)) \<and>
   pitch (mouseCallback fixed_view 512 (- 1000000) (setWindowCallbacks initial_state)) \<le> 89"
proof -
  have calls: "list_all pitch_ok (camera_calls (myCamera (setWindowCallbacks initial_state)))"
    by (simp add: setWindowCallbacks_def Let_def gl_def initial_state_def)
  have mode: "cursorMode (myWindow (setWindowCallbacks initial_state)) \<noteq> GLFW_CURSOR_NORMAL"
    by (simp add: setWindowCallbacks_def Let_def gl_def)
  show ?thesis
    using mouse_pitch_clamped [of fixed_view wild_mouse "setWindowCallbacks initial_state"
        "[(512, - 1000000), (512, 1000000)]" 512 "- 1000000"] calls mode
    by simp
qed

section \<open>Startup and the application loop\<close>

lemma application_loop_closed:
  "shouldClose (myWindow s) \<Longrightarrow> application_loop g fs s = (s, True)"
  by (cases fs) simp_all

lemma application_loop_snd:
  "snd (application_loop g fs s) = shouldClose (myWindow (fst (application_loop g fs s)))"
  by (induction fs arbitrary: s) simp_all

lemma myWindow_gl: "myWindow (gl c s) = myWindow s"
  by (simp add: gl_def)

lemma myWindow_glCheckError: "myWindow (glCheckError file line pending s) = myWindow s"
proof -
  have "myWindow (fold (\<lambda>e. print_cout (GLError (error_name e) file line)) xs s) = myWindow s"
    for xs
    by (induction xs arbitrary: s) (simp_all add: print_cout_def)
  then show ?thesis by (simp add: glCheckError_def)
qed

lemma shouldClose_deliver:
  "shouldClose (myWindow s) \<or> close_request e \<Longrightarrow> shouldClose (myWindow (deliver g e s))"
  by (cases e)
     (auto simp add: close_request_def keyboardCallback_def mouseCallback_def
        windowResizeCallback_def Let_def gl_prims print_cout_def)

lemma shouldClose_glfwPollEvents:
  "shouldClose (myWindow s) \<or> list_ex close_request evs \<Longrightarrow>
   shouldClose (myWindow (glfwPollEvents g evs s))"
  unfolding glfwPollEvents_def
proof (induction evs arbitrary: s)
  case Nil
  then show ?case by simp
next
  case (Cons e evs)
  from Cons.prems have "shouldClose (myWindow (deliver g e s)) \<or> list_ex close_request evs"
    using shouldClose_deliver [of s e g] by auto
  from Cons.IH [OF this] show ?case by simp
qed

lemma shouldClose_loop_body:
  "list_ex close_request (events f) \<Longrightarrow> shouldClose (myWindow (loop_body g f s))"
  by (simp add: loop_body_def Let_def myWindow_glCheckError myWindow_gl
      shouldClose_glfwPollEvents)

lemma application_loop_exits:
  "list_ex (\<lambda>f. list_ex close_request (events f)) fs \<Longrightarrow> snd (application_loop g fs s)"
proof (induction fs arbitrary: s)
  case Nil
  then show ?case by simp
next
  case (Cons f fs)
  show ?case
  proof (cases "list_ex close_request (events f)")
    case True
    then have "shouldClose (myWindow (loop_body g f s))" by (rule shouldClose_loop_body)
    then show ?thesis by (simp add: application_loop_closed)
  next
    case False
    with Cons.prems have "list_ex (\<lambda>f. list_ex close_request (events f)) fs" by simp
    from Cons.IH [OF this] show ?thesis by simp
  qed
qed

lemma calls_gl: "prefix xs (gl_calls s) \<Longrightarrow> prefix xs (gl_calls (gl c s))"
  by (simp add: gl_def)

lemma calls_move_block:
  "prefix xs (gl_calls s) \<Longrightarrow> prefix xs (gl_calls (move_block g d s))"
  by (simp add: move_block_def Let_def gl_prims)

lemma calls_rotate_block:
  "prefix xs (gl_calls s) \<Longrightarrow> prefix xs (gl_calls (rotate_block d s))"
  by (simp add: rotate_block_def Let_def)

lemma calls_if_pressed:
  "(\<And>s. prefix xs (gl_calls s) \<Longrightarrow> prefix xs (gl_calls (body s))) \<Longrightarrow>
   prefix xs (gl_calls s) \<Longrightarrow> prefix xs (gl_calls (if_pressed k body s))"
  by (simp add: if_pressed_def)

lemma calls_processInput:
  "prefix xs (gl_calls s) \<Longrightarrow> prefix xs (gl_calls (processInput g s))"
  unfolding processInput_def Let_def
  by (intro calls_if_pressed calls_move_block calls_rotate_block) (simp_all add: gl_prims)

lemma calls_renderScene:
  "prefix xs (gl_calls s) \<Longrightarrow> prefix xs (gl_calls (renderScene g s))"
  by (simp add: renderScene_calls)

lemma calls_deliver: "prefix xs (gl_calls s) \<Longrightarrow> prefix xs (gl_calls (deliver g e s))"
  by (cases e)
     (simp_all add: keyboardCallback_def mouseCallback_def windowResizeCallback_def Let_def
        gl_prims print_cout_def)

lemma calls_glfwPollEvents:
  "prefix xs (gl_calls s) \<Longrightarrow> prefix xs (gl_calls (glfwPollEvents g evs s))"
  unfolding glfwPollEvents_def
  by (induction evs arbitrary: s) (simp_all add: calls_deliver)

lemma gl_calls_glCheckError: "gl_calls (glCheckError file line pending s) = gl_calls s"
proof -
  have "gl_calls (fold (\<lambda>e. print_cout (GLError (error_name e) file line)) xs s) = gl_calls s"
    for xs
    by (induction xs arbitrary: s) (simp_all add: print_cout_def)
  then show ?thesis by (simp add: glCheckError_def)
qed

lemma calls_loop_body: "prefix xs (gl_calls s) \<Longrightarrow> prefix xs (gl_calls (loop_body g f s))"
  by (simp add: loop_body_def Let_def gl_calls_glCheckError calls_gl calls_glfwPollEvents
      calls_renderScene calls_processInput)

lemma calls_application_loop:
  "prefix xs (gl_calls s) \<Longrightarrow> prefix xs (gl_calls (fst (application_loop g fs s)))"
  by (induction fs arbitrary: s) (simp_all add: calls_loop_body)

lemma main_created:
  assumes "create_throws w = None"
  shows "main g w =
     (let r = application_loop g (frames w) (startup g (startup_gl_errors w) window_created)
      in if snd r then (cleanup (fst r), Some EXIT_SUCCESS) else (fst r, None))"
  using assms
  by (simp add: main_def initOpenGLWindow_def Window_Create_def window_created_def Let_def
      split: prod.split bool.split)

lemma located_gl: "uniforms_located (gl c s) = uniforms_located s"
  by (simp add: uniforms_located_def gl_def)

lemma located_move_block: "uniforms_located (move_block g d s) = uniforms_located s"
  by (simp add: uniforms_located_def move_block_def Let_def gl_prims)

lemma located_rotate_block: "uniforms_located (rotate_block d s) = uniforms_located s"
  by (simp add: uniforms_located_def rotate_block_def Let_def)

lemma located_if_pressed:
  "(\<And>s. uniforms_located (body s) = uniforms_located s) \<Longrightarrow>
   uniforms_located (if_pressed k body s) = uniforms_located s"
  by (simp add: if_pressed_def)

lemma located_set_mode: "uniforms_located ((glPolygonMode m s)\<lparr>isFlat := v\<rparr>) = uniforms_located s"
  by (simp add: uniforms_located_def gl_prims)

lemma located_lightAngle: "uniforms_located (s\<lparr>lightAngle := a\<rparr>) = uniforms_located s"
  by (simp add: uniforms_located_def)

lemma located_processInput: "uniforms_located (processInput g s) = uniforms_located s"
  by (simp add: processInput_def Let_def located_if_pressed located_move_block
      located_rotate_block located_set_mode located_lightAngle)

lemma located_renderScene: "uniforms_located (renderScene g s) = uniforms_located s"
  by (simp add: uniforms_located_def renderScene_def Let_def gl_prims drawObjects_def)

lemma located_deliver: "uniforms_located (deliver g e s) = uniforms_located s"
  by (cases e)
     (simp_all add: uniforms_located_def keyboardCallback_def mouseCallback_def
        windowResizeCallback_def Let_def gl_prims print_cout_def)

lemma located_glfwPollEvents: "uniforms_located (glfwPollEvents g evs s) = uniforms_located s"
  unfolding glfwPollEvents_def
  by (induction evs arbitrary: s) (simp_all add: located_deliver)

lemma located_glCheckError: "uniforms_located (glCheckError file line pending s) = uniforms_located s"
proof -
  have "uniforms_located (fold (\<lambda>e. print_cout (GLError (error_name e) file line)) xs s) =
      uniforms_located s" for xs
    by (induction xs arbitrary: s) (simp_all add: uniforms_located_def print_cout_def)
  then show ?thesis by (simp add: glCheckError_def)
qed

lemma located_loop_body: "uniforms_located (loop_body g f s) = uniforms_located s"
  by (simp add: loop_body_def Let_def located_glCheckError located_gl located_glfwPollEvents
      located_renderScene located_processInput)

lemma located_application_loop:
  "uniforms_located (fst (application_loop g fs s)) = uniforms_located s"
  by (induction fs arbitrary: s) (simp_all add: located_loop_body)

lemma startup_fields:
  "uniforms_located (startup g pending window_created)"
  "cursorMode (myWindow (startup g pending window_created)) = GLFW_CURSOR_DISABLED"
  "\<not> shouldClose (myWindow (startup g pending window_created))"
  "gl_viewport (startup g pending window_created) = (0, 0, 1024, 768)"
  "gl_program (startup g pending window_created) = Some myBasicShader"
proof -
  have "uniforms_located (setWindowCallbacks (initSkyBox (initUniforms g s)))" for s
    using initUniforms_located [of g s]
    by (simp add: uniforms_located_def setWindowCallbacks_def initSkyBox_def Let_def gl_def)
  then show "uniforms_located (startup g pending window_created)"
    by (simp add: startup_def Let_def located_glCheckError)
  show "cursorMode (myWindow (startup g pending window_created)) = GLFW_CURSOR_DISABLED"
    by (simp add: startup_def Let_def myWindow_glCheckError setWindowCallbacks_def gl_def)
  show "\<not> shouldClose (myWindow (startup g pending window_created))"
    by (simp add: startup_def Let_def myWindow_glCheckError setWindowCallbacks_def
        initSkyBox_def initUniforms_def initShaders_def initModels_def initFBO_def
        initOpenGLState_def gl_prims window_created_def initial_state_def)
  have vp: "gl_viewport (glCheckError fl ln pending s) = gl_viewport s"
    "gl_program (glCheckError fl ln pending s) = gl_program s" for fl ln s
  proof -
    have "gl_viewport (fold (\<lambda>e. print_cout (GLError (error_name e) fl ln)) xs s) =
        gl_viewport s \<and>
      gl_program (fold (\<lambda>e. print_cout (GLError (error_name e) fl ln)) xs s) =
        gl_program s" for xs
      by (induction xs arbitrary: s) (simp_all add: print_cout_def)
    then show "gl_viewport (glCheckError fl ln pending s) = gl_viewport s"
      "gl_program (glCheckError fl ln pending s) = gl_program s"
      by (simp_all add: glCheckError_def)
  qed
  show "gl_viewport (startup g pending window_created) = (0, 0, 1024, 768)"
    by (simp add: startup_def Let_def vp setWindowCallbacks_def
        initSkyBox_def initUniforms_def initShaders_def initModels_def initFBO_def
        initOpenGLState_def gl_prims window_created_def initial_state_def)
  show "gl_program (startup g pending window_created) = Some myBasicShader"
    by (simp add: startup_def Let_def vp setWindowCallbacks_def
        initSkyBox_def initUniforms_def initShaders_def initModels_def initFBO_def
        initOpenGLState_def gl_prims window_created_def initial_state_def)
qed

lemma startup_calls:
  "gl_calls (startup g pending window_created) =
     [Other ''glClearColor'',
      Viewport 0 0 1024 768,
      Other ''glEnable(GL_DEPTH_TEST)'',
      Other ''glDepthFunc(GL_LESS)'',
      Other ''glEnable(GL_CULL_FACE)'',
      Other ''glCullFace(GL_BACK)'',
      Other ''glFrontFace(GL_CCW)'',
      Other ''glEnable(GL_BLEND)'',
      Other ''glBlendFunc'',
      Other ''glGenFramebuffers'',
      Other ''glGenTextures'',
      BindDepthMapTexture,
      Other ''glTexImage2D'',
      Other ''glTexParameteri(GL_TEXTURE_MIN_FILTER, GL_NEAREST)'',
      Other ''glTexParameteri(GL_TEXTURE_MAG_FILTER, GL_NEAREST)'',
      Other ''glTexParameterfv(GL_TEXTURE_BORDER_COLOR)'',
      Other ''glTexParameteri(GL_TEXTURE_WRAP_S, GL_CLAMP_TO_BORDER)'',
      Other ''glTexParameteri(GL_TEXTURE_WRAP_T, GL_CLAMP_TO_BORDER)'',
      BindFramebuffer shadowMapFBO,
      Other ''glFramebufferTexture2D'',
      Other ''glDrawBuffer(GL_NONE)'',
      Other ''glReadBuffer(GL_NONE)'',
      BindFramebuffer default_framebuffer,
      LoadModel nanosuit ''objects/nanosuit/nanosuit.obj'',
      LoadModel ground ''objects/ground/ground.obj'',
      LoadModel lightCube ''objects/cube/cube.obj'',
      LoadShader skyboxShader ''shaders/skyboxShader.vert'' ''shaders/skyboxShader.frag'',
      UseProgram skyboxShader,
      LoadShader myBasicShader ''shaders/basic.vert'' ''shaders/basic.frag'',
      LoadShader lightShader ''shaders/lightCube.vert'' ''shaders/lightCube.frag'',
      LoadShader depthMapShader ''shaders/depthMap.vert'' ''shaders/depthMap.frag'',
      UseProgram myBasicShader,
      Uniform (Some myBasicShader) (Loc myBasicShader ''view'')
        (UMat4 (g (myCamera initial_state))),
      Uniform (Some myBasicShader) (Loc myBasicShader ''projection'')
        (UMat4 (glm_perspective (glm_radians 45) (f32 (f32 1024 / f32 768)) (f32 (1 / 10)) 50)),
      Uniform (Some myBasicShader) (Loc myBasicShader ''lightDir'') (UVec3 (0, 1, 1)),
      Uniform (Some myBasicShader) (Loc myBasicShader ''lightColor'') (UVec3 (1, 1, 1)),
      Uniform (Some myBasicShader) (Loc myBasicShader ''pointLightPos'') (UVec3 (0, 2, 0)),
      Uniform (Some myBasicShader) (Loc myBasicShader ''isFlat'') (UInt 0),
      LoadSkyBox [''skybox/right.tga'', ''skybox/left.tga'', ''skybox/top.tga'',
                  ''skybox/bottom.tga'', ''skybox/back.tga'', ''skybox/front.tga''],
      Other ''glfwSetWindowSizeCallback'',
      Other ''glfwSetKeyCallback'',
      Other ''glfwSetCursorPosCallback'']"
  by (simp add: startup_def Let_def gl_calls_glCheckError setWindowCallbacks_def
      initSkyBox_def initUniforms_def initShaders_def initModels_def initFBO_def
      initOpenGLState_def gl_prims window_created_def initial_state_def)

lemma processInput_no_key:
  "pressedKeys s = replicate 1024 False \<Longrightarrow> processInput g s = s"
  by (simp add: processInput_def Let_def if_pressed_def glfw_keys)

lemma pressedKeys_startup:
  "pressedKeys (startup g pending window_created) = replicate 1024 False"
proof -
  have "pressedKeys (glCheckError fl ln pending s) = pressedKeys s" for fl ln s
  proof -
    have "pressedKeys (fold (\<lambda>e. print_cout (GLError (error_name e) fl ln)) xs s) =
        pressedKeys s" for xs
      by (induction xs arbitrary: s) (simp_all add: print_cout_def)
    then show ?thesis by (simp add: glCheckError_def)
  qed
  then show ?thesis
    by (simp add: startup_def Let_def setWindowCallbacks_def
        initSkyBox_def initUniforms_def initShaders_def initModels_def initFBO_def
        initOpenGLState_def gl_prims window_created_def initial_state_def)
qed

lemma first_frame_calls:
  assumes "\<not> shouldClose (myWindow s)" and "fs \<noteq> []"
  shows "prefix (gl_calls (renderScene g (processInput g s)))
           (gl_calls (fst (application_loop g fs s)))"
proof -
  from assms(2) obtain f fs' where fs: "fs = f # fs'" by (cases fs) auto
  have "prefix (gl_calls (renderScene g (processInput g s))) (gl_calls (loop_body g f s))"
    by (simp add: loop_body_def Let_def gl_calls_glCheckError calls_gl calls_glfwPollEvents)
  then have "prefix (gl_calls (renderScene g (processInput g s)))
      (gl_calls (fst (application_loop g fs' (loop_body g f s))))"
    by (rule calls_application_loop)
  with assms(1) fs show ?thesis by simp
qed

text \<open>
  C9: when the creation of the window throws, \<open>main\<close> writes the exception's \<open>what()\<close> to
  \<open>cerr\<close> and returns \<open>EXIT_FAILURE\<close>; nothing else of the initial state has changed: no
  call has been made and the location globals are unassigned, so no initialisation and no
  frame has run. When the window is created, \<open>main\<close> runs the startup functions: they
  make the 42 calls listed, in this order, assign the location globals, capture the cursor
  and set the viewport to the window, and these calls begin the list of calls of the
  final state. Then it runs the application loop: with at least one frame in the input,
  the 35 calls of the first \<open>renderScene\<close> follow the 42 of the startup. \<open>main\<close> returns
  nothing but \<open>EXIT_SUCCESS\<close>, and returns exactly when the loop is left, which is when the
  close flag of the window is set. It does return when some frame of the input delivers a
  close request or a press of the Escape key.
\<close>

theorem main_exit_status:
  "(create_throws w = Some what \<longrightarrow>
      main getViewMatrix w = (initial_state\<lparr>cerr := [What what]\<rparr>, Some EXIT_FAILURE) \<and>
      gl_calls (fst (main getViewMatrix w)) = [] \<and>
      \<not> uniforms_located (fst (main getViewMatrix w))) \<and>
   (create_throws w = None \<longrightarrow>
      (snd (main getViewMatrix w) = None \<or> snd (main getViewMatrix w) = Some EXIT_SUCCESS) \<and>
      (snd (main getViewMatrix w) = Some EXIT_SUCCESS) =
        snd (application_loop getViewMatrix (frames w)
               (startup getViewMatrix (startup_gl_errors w) window_created)) \<and>
      (snd (main getViewMatrix w) = Some EXIT_SUCCESS) =
        shouldClose (myWindow (fst (main getViewMatrix w))) \<and>
      gl_calls (startup getViewMatrix (startup_gl_errors w) window_created) =
        [Other ''glClearColor'',
         Viewport 0 0 1024 768,
         Other ''glEnable(GL_DEPTH_TEST)'',
         Other ''glDepthFunc(GL_LESS)'',
         Other ''glEnable(GL_CULL_FACE)'',
         Other ''glCullFace(GL_BACK)'',
         Other ''glFrontFace(GL_CCW)'',
         Other ''glEnable(GL_BLEND)'',
         Other ''glBlendFunc'',
         Other ''glGenFramebuffers'',
         Other ''glGenTextures'',
         BindDepthMapTexture,
         Other ''glTexImage2D'',
         Other ''glTexParameteri(GL_TEXTURE_MIN_FILTER, GL_NEAREST)'',
         Other ''glTexParameteri(GL_TEXTURE_MAG_FILTER, GL_NEAREST)'',
         Other ''glTexParameterfv(GL_TEXTURE_BORDER_COLOR)'',
         Other ''glTexParameteri(GL_TEXTURE_WRAP_S, GL_CLAMP_TO_BORDER)'',
         Other ''glTexParameteri(GL_TEXTURE_WRAP_T, GL_CLAMP_TO_BORDER)'',
         BindFramebuffer shadowMapFBO,
         Other ''glFramebufferTexture2D'',
         Other ''glDrawBuffer(GL_NONE)'',
         Other ''glReadBuffer(GL_NONE)'',
         BindFramebuffer default_framebuffer,
         LoadModel nanosuit ''objects/nanosuit/nanosuit.obj'',
         LoadModel ground ''objects/ground/ground.obj'',
         LoadModel lightCube ''objects/cube/cube.obj'',
         LoadShader skyboxShader ''shaders/skyboxShader.vert'' ''shaders/skyboxShader.frag'',
         UseProgram skyboxShader,
         LoadShader myBasicShader ''shaders/basic.vert'' ''shaders/basic.frag'',
         LoadShader lightShader ''shaders/lightCube.vert'' ''shaders/lightCube.frag'',
         LoadShader depthMapShader ''shaders/depthMap.vert'' ''shaders/depthMap.frag'',
         UseProgram myBasicShader,
         Uniform (Some myBasicShader) (Loc myBasicShader ''view'')
           (UMat4 (getViewMatrix (myCamera initial_state))),
         Uniform (Some myBasicShader) (Loc myBasicShader ''projection'')
           (UMat4 (glm_perspective (glm_radians 45) (f32 (f32 1024 / f32 768)) (f32 (1 / 10)) 50)),
         Uniform (Some myBasicShader) (Loc myBasicShader ''lightDir'') (UVec3 (0, 1, 1)),
         Uniform (Some myBasicShader) (Loc myBasicShader ''lightColor'') (UVec3 (1, 1, 1)),
         Uniform (Some myBasicShader) (Loc myBasicShader ''pointLightPos'') (UVec3 (0, 2, 0)),
         Uniform (Some myBasicShader) (Loc myBasicShader ''isFlat'') (UInt 0),
         LoadSkyBox [''skybox/right.tga'', ''skybox/left.tga'', ''skybox/top.tga'',
                     ''skybox/bottom.tga'', ''skybox/back.tga'', ''skybox/front.tga''],
         Other ''glfwSetWindowSizeCallback'',
         Other ''glfwSetKeyCallback'',
         Other ''glfwSetCursorPosCallback''] \<and>
      uniforms_located (startup getViewMatrix (startup_gl_errors w) window_created) \<and>
      cursorMode (myWindow (startup getViewMatrix (startup_gl_errors w) window_created)) =
        GLFW_CURSOR_DISABLED \<and>
      gl_viewport (startup getViewMatrix (startup_gl_errors w) window_created) =
        (0, 0, 1024, 768) \<and>
      prefix (gl_calls (startup getViewMatrix (startup_gl_errors w) window_created))
        (gl_calls (fst (main getViewMatrix w))) \<and>
      uniforms_located (fst (main getViewMatrix w)) \<and>
      (frames w \<noteq> [] \<longrightarrow>
         length (gl_calls (renderScene getViewMatrix
           (processInput getViewMatrix
              (startup getViewMatrix (startup_gl_errors w) window_created)))) = 77 \<and>
         prefix
           (gl_calls (renderScene getViewMatrix
              (processInput getViewMatrix
                 (startup getViewMatrix (startup_gl_errors w) window_created))))
           (gl_calls (fst (main getViewMatrix w)))) \<and>
      (list_ex (\<lambda>f. list_ex close_request (events f)) (frames w) \<longrightarrow>
         snd (main getViewMatrix w) = Some EXIT_SUCCESS))"
proof -
  let ?s = "startup getViewMatrix (startup_gl_errors w) window_created"
  let ?r = "application_loop getViewMatrix (frames w) ?s"
  have fail: "create_throws w = Some what \<longrightarrow>
      main getViewMatrix w = (initial_state\<lparr>cerr := [What what]\<rparr>, Some EXIT_FAILURE) \<and>
      gl_calls (fst (main getViewMatrix w)) = [] \<and>
      \<not> uniforms_located (fst (main getViewMatrix w))"
    by (simp add: main_def initOpenGLWindow_def Window_Create_def print_cerr_def
        initial_state_def uniforms_located_def)
  have pre: "prefix (gl_calls ?s) (gl_calls (fst ?r))"
    by (rule calls_application_loop) simp
  have closed: "snd ?r = shouldClose (myWindow (fst ?r))"
    by (rule application_loop_snd)
  have exits: "list_ex (\<lambda>f. list_ex close_request (events f)) (frames w) \<longrightarrow> snd ?r"
    using application_loop_exits [of "frames w" getViewMatrix ?s] by simp
  have loc: "uniforms_located (fst ?r)"
    by (simp add: located_application_loop startup_fields)
  have len: "length (gl_calls (renderScene getViewMatrix (processInput getViewMatrix ?s))) = 77"
    by (simp add: processInput_no_key [OF pressedKeys_startup] renderScene_calls startup_calls)
  have first: "frames w \<noteq> [] \<longrightarrow>
      prefix (gl_calls (renderScene getViewMatrix (processInput getViewMatrix ?s)))
        (gl_calls (fst ?r))"
    using first_frame_calls [of ?s "frames w" getViewMatrix] startup_fields(3) by blast
  have ok: "create_throws w = None \<longrightarrow>
      (snd (main getViewMatrix w) = None \<or> snd (main getViewMatrix w) = Some EXIT_SUCCESS) \<and>
      (snd (main getViewMatrix w) = Some EXIT_SUCCESS) = snd ?r \<and>
      (snd (main getViewMatrix w) = Some EXIT_SUCCESS) =
        shouldClose (myWindow (fst (main getViewMatrix w))) \<and>
      prefix (gl_calls ?s) (gl_calls (fst (main getViewMatrix w))) \<and>
      uniforms_located (fst (main getViewMatrix w)) \<and>
      (frames w \<noteq> [] \<longrightarrow>
         prefix (gl_calls (renderScene getViewMatrix (processInput getViewMatrix ?s)))
           (gl_calls (fst (main getViewMatrix w)))) \<and>
      (list_ex (\<lambda>f. list_ex close_request (events f)) (frames w) \<longrightarrow>
         snd (main getViewMatrix w) = Some EXIT_SUCCESS)"
  proof
    assume none: "create_throws w = None"
    show "(snd (main getViewMatrix w) = None \<or> snd (main getViewMatrix w) = Some EXIT_SUCCESS) \<and>
      (snd (main getViewMatrix w) = Some EXIT_SUCCESS) = snd ?r \<and>
      (snd (main getViewMatrix w) = Some EXIT_SUCCESS) =
        shouldClose (myWindow (fst (main getViewMatrix w))) \<and>
      prefix (gl_calls ?s) (gl_calls (fst (main getViewMatrix w))) \<and>
      uniforms_located (fst (main getViewMatrix w)) \<and>
      (frames w \<noteq> [] \<longrightarrow>
         prefix (gl_calls (renderScene getViewMatrix (processInput getViewMatrix ?s)))
           (gl_calls (fst (main getViewMatrix w)))) \<and>
      (list_ex (\<lambda>f. list_ex close_request (events f)) (frames w) \<longrightarrow>
         snd (main getViewMatrix w) = Some EXIT_SUCCESS)"
    proof (cases "snd ?r")
      case True
      with closed pre exits loc first show ?thesis
        by (simp add: main_created [OF none] Let_def cleanup_def myWindow_gl calls_gl located_gl)
    next
      case False
      with closed pre exits loc first show ?thesis
        by (simp add: main_created [OF none] Let_def)
    qed
  qed
  from fail ok len startup_calls [of getViewMatrix "startup_gl_errors w"]
    startup_fields [of getViewMatrix "startup_gl_errors w"]
  show ?thesis by (simp only: simp_thms)
qed

theorem main_exit_status_witness:
  "create_throws no_window = Some ''Could not create window'' \<and>
   main fixed_view no_window =
     (initial_state\<lparr>cerr := [What ''Could not create window'']\<rparr>, Some EXIT_FAILURE) \<and>
   gl_calls (fst (main fixed_view no_window)) = [] \<and>
   create_throws escape_in_second_frame = None \<and>
   frames escape_in_second_frame \<noteq> [] \<and>
   list_ex (\<lambda>f. list_ex close_request (events f)) (frames escape_in_second_frame) \<and>
   snd (main fixed_view escape_in_second_frame) = Some EXIT_SUCCESS \<and>
   shouldClose (myWindow (fst (main fixed_view escape_in_second_frame))) \<and>
   length (gl_calls (startup fixed_view [] window_created)) = 42 \<and>
   cursorMode (myWindow (startup fixed_view [] window_created)) = GLFW_CURSOR_DISABLED \<and>
   uniforms_located (fst (main fixed_view escape_in_second_frame)) \<and>
   prefix (gl_calls (startup fixed_view [] window_created))
     (gl_calls (fst (main fixed_view escape_in_second_frame))) \<and>
   length (gl_calls (renderScene fixed_view
     (processInput fixed_view (startup fixed_view [] window_created)))) = 77 \<and>
   prefix
     (gl_calls (renderScene fixed_view
        (processInput fixed_view (startup fixed_view [] window_created))))
     (gl_calls (fst (main fixed_view escape_in_second_frame)))"
proof -
  have a: "create_throws no_window = Some ''Could not create window''"
    by (simp add: no_window_def)
  have b: "create_throws escape_in_second_frame = None"
    "startup_gl_errors escape_in_second_frame = []"
    "frames escape_in_second_frame \<noteq> []"
    by (simp_all add: escape_in_second_frame_def)
  have c: "list_ex (\<lambda>f. list_ex close_request (events f)) (frames escape_in_second_frame)"
    by (simp add: escape_in_second_frame_def close_request_def)
  show ?thesis
    using main_exit_status [of no_window "''Could not create window''" fixed_view]
      main_exit_status [of escape_in_second_frame "[]" fixed_view] a b c
    by auto
qed

section \<open>The direction of the light\<close>

lemma glm_rotate_y:
  "glm_rotate (mat4_diag 1) a (0, 1, 0) =
     ((cos a, 0, - sin a, 0), (0, 1, 0, 0), (sin a, 0, cos a, 0), (0, 0, 0, 1))"
  by (simp add: mat4_diag_def glm_normalize_def glm_inversesqrt_def Let_def)

lemma rotated_base_direction_eq:
  "rotated_base_direction theta = (sin (glm_radians theta), 1, cos (glm_radians theta))"
  by (simp add: rotated_base_direction_def glm_rotate_y)

lemma rotated_base_direction_0: "rotated_base_direction 0 = (0, 1, 1)"
  by (simp add: rotated_base_direction_eq glm_radians_def)

lemma lightDirN_eq:
  "computeLightSpaceTrMatrix_lightDirN s = glm_normalize (rotated_base_direction (lightAngle s))"
  by (simp add: computeLightSpaceTrMatrix_lightDirN_def rotated_base_direction_def Let_def)

lemma dot_rotated: "glm_dot (rotated_base_direction theta) (rotated_base_direction theta) = 2"
proof -
  have "sin (glm_radians theta) * sin (glm_radians theta)
      + cos (glm_radians theta) * cos (glm_radians theta) = 1"
    using sin_cos_squared_add [of "glm_radians theta"] by (simp add: power2_eq_square)
  then show ?thesis by (simp add: rotated_base_direction_eq)
qed

lemma normalize_rotated:
  "glm_normalize (rotated_base_direction theta) =
     vec3_scale (rotated_base_direction theta) (1 / sqrt 2)"
  by (simp add: glm_normalize_def dot_rotated glm_inversesqrt_def)

lemma lightCube_translation:
  "translation_of
     (glm_scale (glm_translate (glm_rotate (mat4_diag 1) (glm_radians theta) (0, 1, 0))
        (vec3_scale (0, 1, 1) 10)) (1 / 2, 1 / 2, 1 / 2)) =
   vec3_scale (rotated_base_direction theta) 10"
  by (simp add: translation_of_def glm_rotate_y rotated_base_direction_eq)

lemma lightAngle_uniforms_initialised: "lightAngle uniforms_initialised = 0"
  by (simp add: uniforms_initialised_def initUniforms_def Let_def gl_prims initial_state_def)

lemma located_uniforms_initialised: "uniforms_located uniforms_initialised"
  by (simp add: uniforms_initialised_def initUniforms_located)

text \<open>
  C2, as the code has it: in every frame the uniform \<open>lightDir\<close> of the colour pass receives
  the rotated base direction \<open>rotate(theta) * (0, 1, 1)\<close> itself, which has length
  \<open>sqrt 2\<close> and is not normalized; the direction from which \<open>computeLightSpaceTrMatrix\<close>
  builds the light-space matrix is the normalization of that same rotated vector, that is
  the vector scaled by \<open>1 / sqrt 2\<close>. Both derive from the same rotation, and they differ by
  that factor.
\<close>

theorem lightDir_same_rotation:
  assumes "uniforms_located s"
  shows "filter (uniform_named ''lightDir'') (gl_calls (renderScene getViewMatrix s)) =
           filter (uniform_named ''lightDir'') (gl_calls s) @
           [Uniform (Some myBasicShader) (Loc myBasicShader ''lightDir'')
              (UVec3 (rotated_base_direction (lightAngle s)))] \<and>
         computeLightSpaceTrMatrix_lightDirN s =
           glm_normalize (rotated_base_direction (lightAngle s)) \<and>
         glm_normalize (rotated_base_direction (lightAngle s)) =
           vec3_scale (rotated_base_direction (lightAngle s)) (1 / sqrt 2) \<and>
         computeLightSpaceTrMatrix s =
           mat4_mul (glm_ortho (- 10) 10 (- 10) 10 1 50)
             (glm_lookAt (vec3_scale (glm_normalize (rotated_base_direction (lightAngle s))) 10)
                (0, 0, 0) (0, 1, 0))"
proof -
  have "filter (uniform_named ''lightDir'') (gl_calls (renderScene getViewMatrix s)) =
           filter (uniform_named ''lightDir'') (gl_calls s) @
           [Uniform (Some myBasicShader) (Loc myBasicShader ''lightDir'')
              (UVec3 (rotated_base_direction (lightAngle s)))]"
    using assms
    by (simp add: renderScene_calls uniform_named_def uniforms_located_def
        rotated_base_direction_def)
  moreover have "computeLightSpaceTrMatrix s =
           mat4_mul (glm_ortho (- 10) 10 (- 10) 10 1 50)
             (glm_lookAt (vec3_scale (glm_normalize (rotated_base_direction (lightAngle s))) 10)
                (0, 0, 0) (0, 1, 0))"
    by (simp add: computeLightSpaceTrMatrix_def computeLightSpaceTrMatrix_lightPos_def
        lightDirN_eq Let_def vec3_splat_def)
  ultimately show ?thesis
    by (simp add: lightDirN_eq normalize_rotated)
qed

theorem lightDir_same_rotation_witness:
  "uniforms_located uniforms_initialised \<and>
   filter (uniform_named ''lightDir'') (gl_calls (renderScene fixed_view uniforms_initialised)) =
     filter (uniform_named ''lightDir'') (gl_calls uniforms_initialised) @
     [Uniform (Some myBasicShader) (Loc myBasicShader ''lightDir'') (UVec3 (0, 1, 1))] \<and>
   computeLightSpaceTrMatrix_lightDirN uniforms_initialised = (0, 1 / sqrt 2, 1 / sqrt 2)"
  using lightDir_same_rotation [OF located_uniforms_initialised, of fixed_view]
    located_uniforms_initialised
  by (simp add: lightAngle_uniforms_initialised rotated_base_direction_0)

text \<open>
  The claim C2 as stated fails with the light at angle 0: the uniform \<open>lightDir\<close> receives
  \<open>(0, 1, 1)\<close>, and the normalized direction \<open>(0, 1 / sqrt 2, 1 / sqrt 2)\<close> that builds the
  light-space matrix is not what is uploaded.
\<close>

theorem lightDir_not_normalized:
  "filter (uniform_named ''lightDir'') (gl_calls (renderScene fixed_view uniforms_initialised)) \<noteq>
     filter (uniform_named ''lightDir'') (gl_calls uniforms_initialised) @
     [Uniform (Some myBasicShader) (Loc myBasicShader ''lightDir'')
        (UVec3 (glm_normalize (rotated_base_direction (lightAngle uniforms_initialised))))]"
proof -
  have "glm_normalize (rotated_base_direction (lightAngle uniforms_initialised)) =
      (0, 1 / sqrt 2, 1 / sqrt 2)"
    by (simp add: lightAngle_uniforms_initialised rotated_base_direction_0 glm_normalize_def
        glm_inversesqrt_def)
  moreover have
    "filter (uniform_named ''lightDir'') (gl_calls (renderScene fixed_view uniforms_initialised)) =
     filter (uniform_named ''lightDir'') (gl_calls uniforms_initialised) @
     [Uniform (Some myBasicShader) (Loc myBasicShader ''lightDir'') (UVec3 (0, 1, 1))]"
    using located_uniforms_initialised
    by (simp add: renderScene_calls uniform_named_def uniforms_located_def
        lightAngle_uniforms_initialised glm_rotate_y glm_radians_def)
  ultimately show ?thesis by simp
qed

section \<open>The marker of the light\<close>

lemma lightPos_eq:
  "computeLightSpaceTrMatrix_lightPos s =
     vec3_scale (vec3_scale (rotated_base_direction (lightAngle s)) (1 / sqrt 2)) 10"
  by (simp add: computeLightSpaceTrMatrix_lightPos_def lightDirN_eq normalize_rotated Let_def)

text \<open>
  C3 fails on the code. With the light at angle 0, the model transform uploaded right
  before the marker cube is drawn has the translation \<open>(0, 10, 10)\<close>, at distance
  \<open>10 * sqrt 2\<close> from the origin, while the light camera of \<open>computeLightSpaceTrMatrix\<close>
  stands at \<open>(0, 10 / sqrt 2, 10 / sqrt 2)\<close>, at distance 10: the cube is translated by the
  rotated base direction times 10 without the normalization. The same holds at every
  angle (\<open>lightCube_translation\<close>, \<open>lightPos_eq\<close>).
\<close>

theorem lightCube_not_at_lightPos:
  "sublist
     [Uniform (Some lightShader) (Loc lightShader ''model'')
        (UMat4 ((1 / 2, 0, 0, 0), (0, 1 / 2, 0, 0), (0, 0, 1 / 2, 0), (0, 10, 10, 1))),
      Draw lightCube lightShader]
     (gl_calls (renderScene fixed_view uniforms_initialised)) \<and>
   translation_of ((1 / 2, 0, 0, 0), (0, 1 / 2, 0, 0), (0, 0, 1 / 2, 0), (0, 10, 10, 1)) =
     (0, 10, 10) \<and>
   computeLightSpaceTrMatrix_lightPos uniforms_initialised = (0, 10 / sqrt 2, 10 / sqrt 2) \<and>
   computeLightSpaceTrMatrix_lightPos uniforms_initialised \<noteq> (0, 10, 10)"
proof -
  have pos: "computeLightSpaceTrMatrix_lightPos uniforms_initialised =
      (0, 10 / sqrt 2, 10 / sqrt 2)"
    by (simp add: lightPos_eq lightAngle_uniforms_initialised rotated_base_direction_0)
  have "10 / sqrt 2 \<noteq> (10::real)"
  proof
    assume "10 / sqrt 2 = (10::real)"
    then have "sqrt 2 = (1::real)" by (simp add: field_simps)
    then show False by simp
  qed
  with pos have neq: "computeLightSpaceTrMatrix_lightPos uniforms_initialised \<noteq> (0, 10, 10)"
    by simp
  have "gl_calls (renderScene fixed_view uniforms_initialised) =
      (gl_calls uniforms_initialised @
       take 32 (drop (length (gl_calls uniforms_initialised))
         (gl_calls (renderScene fixed_view uniforms_initialised)))) @
      [Uniform (Some lightShader) (Loc lightShader ''model'')
        (UMat4 ((1 / 2, 0, 0, 0), (0, 1 / 2, 0, 0), (0, 0, 1 / 2, 0), (0, 10, 10, 1))),
       Draw lightCube lightShader] @
      [DrawSkyBox skyboxShader (fixed_view (myCamera uniforms_initialised))
         (projection uniforms_initialised)]"
    by (simp add: renderScene_calls lightAngle_uniforms_initialised glm_rotate_y glm_radians_def)
  then have "sublist
     [Uniform (Some lightShader) (Loc lightShader ''model'')
        (UMat4 ((1 / 2, 0, 0, 0), (0, 1 / 2, 0, 0), (0, 0, 1 / 2, 0), (0, 10, 10, 1))),
      Draw lightCube lightShader]
     (gl_calls (renderScene fixed_view uniforms_initialised))"
    unfolding sublist_def by blast
  with pos neq show ?thesis
    by (simp add: translation_of_def)
qed

section \<open>Rounding to binary32\<close>

lemma fround_unfold:
  assumes "x \<noteq> 0"
    and "u = 2 powr (of_int \<lfloor>log 2 \<bar>x\<bar>\<rfloor> - (of_nat p - 1))"
    and "q = x / u"
  shows "fround p x =
     (if q - of_int \<lfloor>q\<rfloor> < 1 / 2 \<or> (q - of_int \<lfloor>q\<rfloor> = 1 / 2 \<and> even \<lfloor>q\<rfloor>)
      then of_int \<lfloor>q\<rfloor> else of_int \<lfloor>q\<rfloor> + 1) * u"
  unfolding fround_def Let_def assms(2) assms(3)
  by (simp only: assms(1) if_False)

lemma fround_exact:
  assumes "x \<noteq> 0"
    and "x / (2 powr (of_int \<lfloor>log 2 \<bar>x\<bar>\<rfloor> - (of_nat p - 1))) \<in> \<int>"
  shows "fround p x = x"
proof -
  define u :: real where "u = 2 powr (of_int \<lfloor>log 2 \<bar>x\<bar>\<rfloor> - (of_nat p - 1))"
  define q where "q = x / u"
  have u: "u > 0" by (simp add: u_def)
  from assms(2) have "q \<in> \<int>" by (simp add: q_def u_def)
  then have fl: "of_int \<lfloor>q\<rfloor> = q"
    by (metis Ints_cases floor_of_int)
  have "fround p x = q * u"
    by (simp add: fround_unfold [OF assms(1) u_def q_def] fl)
  with u show ?thesis by (simp add: q_def)
qed

lemma f32_of_int:
  assumes "\<bar>n\<bar> \<le> 16777216"
  shows "f32 (of_int n) = of_int n"
proof (cases "n = 0")
  case True
  then show ?thesis by (simp add: f32_def fround_def)
next
  case False
  define x :: real where "x = of_int n"
  define e where "e = \<lfloor>log 2 \<bar>x\<bar>\<rfloor>"
  from False have "1 \<le> \<bar>n\<bar>" by linarith
  then have x1: "1 \<le> \<bar>x\<bar>" unfolding x_def by linarith
  from assms have x24: "\<bar>x\<bar> \<le> 16777216" unfolding x_def by linarith
  have xpos: "0 < \<bar>x\<bar>" using x1 by linarith
  have bounds: "2 powr of_int e \<le> \<bar>x\<bar>" "\<bar>x\<bar> < 2 powr (of_int e + 1)"
    using floor_log_eq_powr_iff [of "\<bar>x\<bar>" 2 e] xpos by (simp_all add: e_def)
  have e0: "0 \<le> e"
    using x1 by (simp add: e_def)
  have e24: "e \<le> 24"
  proof -
    have "log 2 \<bar>x\<bar> \<le> log 2 16777216"
      using x24 xpos by simp
    also have "log 2 16777216 = 24"
      using log_pow_cancel [of 2 24] by simp
    finally show ?thesis by (simp add: e_def floor_le_iff)
  qed
  have "x / (2 powr (of_int e - (of_nat 24 - 1))) \<in> \<int>"
  proof (cases "e \<le> 23")
    case True
    have "(2::real) powr of_int (e - 23) =
        (if 0 \<le> e - 23 then 2 ^ nat (e - 23) else inverse (2 ^ nat (- (e - 23))))"
      by (rule powr_real_of_int) simp
    with True have "(2::real) powr of_int (e - 23) = inverse (2 ^ nat (23 - e))"
      by (cases "e = 23") auto
    moreover have "2 powr (of_int e - (of_nat 24 - 1)) = (2::real) powr of_int (e - 23)"
      by simp
    ultimately have "2 powr (of_int e - (of_nat 24 - 1)) = inverse ((2::real) ^ nat (23 - e))"
      by (simp only:)
    then have "x / (2 powr (of_int e - (of_nat 24 - 1))) = of_int (n * 2 ^ nat (23 - e))"
      by (simp add: field_simps x_def)
    then show ?thesis by (metis Ints_of_int)
  next
    case False
    with e24 have e: "e = 24" by linarith
    with bounds(1) have "16777216 \<le> \<bar>x\<bar>" by simp
    with x24 have "\<bar>x\<bar> = 16777216" by linarith
    then have "x = 16777216 \<or> x = - 16777216" by linarith
    then have "x / 2 = of_int 8388608 \<or> x / 2 = of_int (- 8388608)" by auto
    then have "x / 2 \<in> \<int>" by (metis Ints_of_int)
    with e show ?thesis by simp
  qed
  then have "fround 24 x = x"
    using False unfolding e_def by (intro fround_exact) (simp_all add: x_def)
  then show ?thesis by (simp add: f32_def x_def)
qed

lemma f32_16777217: "f32 16777217 = 16777216"
proof -
  define x :: real where "x = 16777217"
  have x0: "x \<noteq> 0" by (simp add: x_def)
  have e: "\<lfloor>log 2 \<bar>x\<bar>\<rfloor> = 24"
    using floor_log_eq_powr_iff [of "\<bar>x\<bar>" 2 24] by (simp add: x_def)
  define u :: real where "u = 2 powr (of_int \<lfloor>log 2 \<bar>x\<bar>\<rfloor> - (of_nat 24 - 1))"
  define q where "q = x / u"
  have u2: "u = 2" by (simp add: u_def e)
  have q: "q = 16777217 / 2" by (simp add: q_def u2 x_def)
  have fl: "\<lfloor>q\<rfloor> = 8388608"
    by (simp add: q floor_eq_iff)
  have "fround 24 x = 16777216"
    by (simp add: fround_unfold [OF x0 u_def q_def] fl) (simp add: q u2)
  then show ?thesis by (simp add: f32_def x_def)
qed

section \<open>The angle of the light\<close>

lemma f32_tenth: "f32 (1 / 10) = 13421773 / 134217728"
proof -
  define x :: real where "x = 1 / 10"
  have x0: "x \<noteq> 0" by (simp add: x_def)
  have e: "\<lfloor>log 2 \<bar>x\<bar>\<rfloor> = - 4"
    using floor_log_eq_powr_iff [of "\<bar>x\<bar>" 2 "- 4"] by (simp add: x_def powr_minus)
  define u :: real where "u = 2 powr (of_int \<lfloor>log 2 \<bar>x\<bar>\<rfloor> - (of_nat 24 - 1))"
  define q where "q = x / u"
  have u2: "u = 1 / 134217728" by (simp add: u_def e powr_minus)
  have q: "q = 134217728 / 10" by (simp add: q_def u2 x_def)
  have fl: "\<lfloor>q\<rfloor> = 13421772"
    by (simp add: q floor_eq_iff)
  have "fround 24 x = 13421773 / 134217728"
    by (simp add: fround_unfold [OF x0 u_def q_def] fl) (simp add: q u2)
  then show ?thesis by (simp add: f32_def x_def)
qed

lemma lightAngle_move_block: "lightAngle (move_block g d s) = lightAngle s"
  by (simp add: move_block_def Let_def gl_prims)

lemma lightAngle_rotate_block: "lightAngle (rotate_block d s) = lightAngle s"
  by (simp add: rotate_block_def Let_def)

lemma lightAngle_set_mode: "lightAngle ((glPolygonMode m s)\<lparr>isFlat := v\<rparr>) = lightAngle s"
  by (simp add: gl_prims)

lemma lightAngle_if_pressed_same:
  "(\<And>s. lightAngle (body s) = lightAngle s) \<Longrightarrow> lightAngle (if_pressed k body s) = lightAngle s"
  by (simp add: if_pressed_def)

lemma lightAngle_if_pressed_J:
  "lightAngle (if_pressed k (\<lambda>s. s\<lparr>lightAngle := f32 (lightAngle s - 1)\<rparr>) s) =
     (if pressedKeys s ! nat k then f32 (lightAngle s - 1) else lightAngle s)"
  by (simp add: if_pressed_def)

lemma lightAngle_if_pressed_L:
  "lightAngle (if_pressed k (\<lambda>s. s\<lparr>lightAngle := f32 (lightAngle s + 1)\<rparr>) s) =
     (if pressedKeys s ! nat k then f32 (lightAngle s + 1) else lightAngle s)"
  by (simp add: if_pressed_def)

lemma lightAngle_processInput:
  "lightAngle (processInput g s) =
     (if pressedKeys s ! nat GLFW_KEY_L
      then f32 ((if pressedKeys s ! nat GLFW_KEY_J then f32 (lightAngle s - 1) else lightAngle s) + 1)
      else (if pressedKeys s ! nat GLFW_KEY_J then f32 (lightAngle s - 1) else lightAngle s))"
  by (simp add: processInput_def Let_def lightAngle_if_pressed_same lightAngle_if_pressed_J
      lightAngle_if_pressed_L lightAngle_move_block lightAngle_rotate_block lightAngle_set_mode
      pressedKeys_if_pressed pressedKeys_move_block pressedKeys_rotate_block pressedKeys_set_mode)

lemma hold_L:
  assumes "pressedKeys s ! nat GLFW_KEY_L" "\<not> pressedKeys s ! nat GLFW_KEY_J"
  shows "lightAngle ((processInput g ^^ k) s) = ((\<lambda>x. f32 (x + 1)) ^^ k) (lightAngle s) \<and>
         pressedKeys ((processInput g ^^ k) s) = pressedKeys s"
  using assms by (induction k) (simp_all add: lightAngle_processInput pressedKeys_processInput)

lemma hold_J:
  assumes "pressedKeys s ! nat GLFW_KEY_J" "\<not> pressedKeys s ! nat GLFW_KEY_L"
  shows "lightAngle ((processInput g ^^ k) s) = ((\<lambda>x. f32 (x - 1)) ^^ k) (lightAngle s) \<and>
         pressedKeys ((processInput g ^^ k) s) = pressedKeys s"
  using assms by (induction k) (simp_all add: lightAngle_processInput pressedKeys_processInput)

lemma count_up:
  "- 16777216 \<le> a \<Longrightarrow> a + int k \<le> 16777216 \<Longrightarrow>
   ((\<lambda>x. f32 (x + 1)) ^^ k) (of_int a) = of_int (a + int k)"
proof (induction k)
  case 0
  then show ?case by simp
next
  case (Suc k)
  then have IH: "((\<lambda>x. f32 (x + 1)) ^^ k) (of_int a) = of_int (a + int k)" by simp
  have r: "f32 (of_int (a + int k + 1)) = of_int (a + int k + 1)"
    using Suc.prems by (intro f32_of_int) simp
  have "((\<lambda>x. f32 (x + 1)) ^^ Suc k) (of_int a) =
      f32 (((\<lambda>x. f32 (x + 1)) ^^ k) (of_int a) + 1)"
    by simp
  also have "\<dots> = f32 (of_int (a + int k) + 1)"
    by (simp only: IH)
  also have "of_int (a + int k) + (1::real) = of_int (a + int k + 1)"
    by simp
  also note r
  also have "a + int k + 1 = a + int (Suc k)"
    by simp
  finally show ?case .
qed

lemma count_down:
  "a \<le> 16777216 \<Longrightarrow> - 16777216 \<le> a - int k \<Longrightarrow>
   ((\<lambda>x. f32 (x - 1)) ^^ k) (of_int a) = of_int (a - int k)"
proof (induction k)
  case 0
  then show ?case by simp
next
  case (Suc k)
  then have IH: "((\<lambda>x. f32 (x - 1)) ^^ k) (of_int a) = of_int (a - int k)" by simp
  have r: "f32 (of_int (a - int k - 1)) = of_int (a - int k - 1)"
    using Suc.prems by (intro f32_of_int) simp
  have "((\<lambda>x. f32 (x - 1)) ^^ Suc k) (of_int a) =
      f32 (((\<lambda>x. f32 (x - 1)) ^^ k) (of_int a) - 1)"
    by simp
  also have "\<dots> = f32 (of_int (a - int k) - 1)"
    by (simp only: IH)
  also have "of_int (a - int k) - (1::real) = of_int (a - int k - 1)"
    by simp
  also note r
  also have "a - int k - 1 = a - int (Suc k)"
    by simp
  finally show ?case .
qed

lemma stuck_at_16777216: "((\<lambda>x. f32 (x + 1)) ^^ k) 16777216 = 16777216"
  by (induction k) (simp_all add: f32_16777217)

lemma lightAngle_keyboardCallback: "lightAngle (keyboardCallback k sc a m s) = lightAngle s"
  by (simp add: keyboardCallback_def Let_def)

lemma light_round_trip_angle:
  assumes len: "length (pressedKeys s) = 1024"
  shows "lightAngle (light_round_trip g s) =
     ((\<lambda>x. f32 (x - 1)) ^^ 180) (((\<lambda>x. f32 (x + 1)) ^^ 180) (lightAngle s))"
proof -
  define s2 where
    "s2 = keyboardCallback GLFW_KEY_L 0 GLFW_PRESS 0 (keyboardCallback GLFW_KEY_J 0 GLFW_RELEASE 0 s)"
  define s3 where "s3 = (processInput g ^^ 180) s2"
  define s5 where
    "s5 = keyboardCallback GLFW_KEY_J 0 GLFW_PRESS 0 (keyboardCallback GLFW_KEY_L 0 GLFW_RELEASE 0 s3)"
  have k2: "pressedKeys s2 ! nat GLFW_KEY_L" "\<not> pressedKeys s2 ! nat GLFW_KEY_J"
    "length (pressedKeys s2) = 1024"
    using len by (simp_all add: s2_def pressedKeys_keyboardCallback glfw_keys)
  have a2: "lightAngle s2 = lightAngle s"
    by (simp add: s2_def lightAngle_keyboardCallback)
  from hold_L [OF k2(1) k2(2), where g = g and k = 180] a2
  have a3: "lightAngle s3 = ((\<lambda>x. f32 (x + 1)) ^^ 180) (lightAngle s)"
    and k3: "pressedKeys s3 = pressedKeys s2"
    by (simp_all add: s3_def)
  have k5: "pressedKeys s5 ! nat GLFW_KEY_J" "\<not> pressedKeys s5 ! nat GLFW_KEY_L"
    using k2(3) k3 by (simp_all add: s5_def pressedKeys_keyboardCallback glfw_keys)
  have a5: "lightAngle s5 = lightAngle s3"
    by (simp add: s5_def lightAngle_keyboardCallback)
  from hold_J [OF k5, where g = g and k = 180] a5 a3
  have "lightAngle ((processInput g ^^ 180) s5) =
      ((\<lambda>x. f32 (x - 1)) ^^ 180) (((\<lambda>x. f32 (x + 1)) ^^ 180) (lightAngle s))"
    by simp
  then show ?thesis
    by (simp add: light_round_trip_def Let_def s5_def s3_def s2_def)
qed

text \<open>
  C6, as the code has it: the angle of the light is a binary32 float that starts at 0 and
  changes by 1 at a time, so it holds an integer. From an angle \<open>a\<close> with
  \<open>-16777216 \<le> a\<close> and \<open>a + 180 \<le> 16777216\<close> (16777216 is \<open>2^24\<close>), 180 frames with the
  L key down followed by 180 frames with the J key down restore the angle exactly, and so
  the rotated direction of the light computed from it is the original one.
\<close>

theorem light_angle_round_trip:
  assumes "length (pressedKeys s) = 1024"
    and "lightAngle s = of_int a"
    and "- 16777216 \<le> a"
    and "a + 180 \<le> 16777216"
  shows "lightAngle (light_round_trip getViewMatrix s) = lightAngle s \<and>
         rotated_base_direction (lightAngle (light_round_trip getViewMatrix s)) =
           rotated_base_direction (lightAngle s)"
proof -
  have up: "((\<lambda>x. f32 (x + 1)) ^^ 180) (of_int a) = of_int (a + 180)"
    using count_up [of a 180] assms(3) assms(4) by simp
  have down: "((\<lambda>x. f32 (x - 1)) ^^ 180) (of_int (a + 180)) = of_int a"
    using count_down [of "a + 180" 180] assms(3) assms(4) by simp
  have "lightAngle (light_round_trip getViewMatrix s) = lightAngle s"
    by (simp only: light_round_trip_angle [OF assms(1)] assms(2) up down)
  then show ?thesis by simp
qed

theorem light_angle_round_trip_witness:
  "length (pressedKeys initial_state) = 1024 \<and>
   lightAngle initial_state = of_int 0 \<and>
   lightAngle (light_round_trip fixed_view initial_state) = 0 \<and>
   rotated_base_direction (lightAngle (light_round_trip fixed_view initial_state)) = (0, 1, 1)"
proof -
  have a: "length (pressedKeys initial_state) = 1024" "lightAngle initial_state = of_int 0"
    by (simp_all add: initial_state_def)
  show ?thesis
    using light_angle_round_trip [OF a, of fixed_view] a
    by (simp add: rotated_base_direction_0)
qed

lemma held_L_state:
  "lightAngle held_L = 16777206 \<and> length (pressedKeys held_L) = 1024"
proof -
  define s1 where "s1 = keyboardCallback GLFW_KEY_L 0 GLFW_PRESS 0 initial_state"
  have k: "pressedKeys s1 ! nat GLFW_KEY_L" "\<not> pressedKeys s1 ! nat GLFW_KEY_J"
    "length (pressedKeys s1) = 1024"
    by (simp_all add: s1_def pressedKeys_keyboardCallback glfw_keys initial_state_def)
  have a: "lightAngle s1 = of_int 0"
    by (simp add: s1_def lightAngle_keyboardCallback initial_state_def)
  have "((\<lambda>x. f32 (x + 1)) ^^ 16777206) (of_int 0) = of_int (0 + int 16777206)"
    by (rule count_up) simp_all
  with hold_L [OF k(1) k(2), where g = fixed_view and k = 16777206] a k(3) show ?thesis
    by (simp add: held_L_def s1_def)
qed

text \<open>
  The claim C6 as stated fails at an angle the program reaches: after 16777206 frames
  with the L key down the angle is 16777206. From there ten more increments reach
  \<open>16777216 = 2^24\<close>, where \<open>lightAngle += 1.0f\<close> rounds back to 16777216 (16777217 is not a
  binary32 number and the tie goes to the even significand), so the other 170 increments
  change nothing; the 180 decrements then end at 16777036, which is 170 degrees away from
  the start, and the direction of the light is another one.
\<close>

theorem light_angle_round_trip_fails:
  "lightAngle held_L = 16777206 \<and>
   length (pressedKeys held_L) = 1024 \<and>
   lightAngle (light_round_trip fixed_view held_L) = 16777036 \<and>
   rotated_base_direction (lightAngle (light_round_trip fixed_view held_L)) \<noteq>
     rotated_base_direction (lightAngle held_L)"
proof -
  have st: "lightAngle held_L = 16777206" "length (pressedKeys held_L) = 1024"
    using held_L_state by simp_all
  have "((\<lambda>x. f32 (x + 1)) ^^ 10) (of_int 16777206) = of_int (16777206 + int 10)"
    by (rule count_up) simp_all
  then have ten: "((\<lambda>x. f32 (x + 1)) ^^ 10) 16777206 = 16777216"
    by simp
  have "((\<lambda>x. f32 (x + 1)) ^^ (170 + 10)) 16777206 =
      ((\<lambda>x. f32 (x + 1)) ^^ 170) (((\<lambda>x. f32 (x + 1)) ^^ 10) 16777206)"
    by (simp only: funpow_add o_apply)
  then have up: "((\<lambda>x. f32 (x + 1)) ^^ 180) 16777206 = 16777216"
    by (simp add: ten stuck_at_16777216)
  have "((\<lambda>x. f32 (x - 1)) ^^ 180) (of_int 16777216) = of_int (16777216 - int 180)"
    by (rule count_down) simp_all
  then have down: "((\<lambda>x. f32 (x - 1)) ^^ 180) 16777216 = 16777036"
    by simp
  have ends: "lightAngle (light_round_trip fixed_view held_L) = 16777036"
    by (simp only: light_round_trip_angle [OF st(2)] st(1) up down)
  have "rotated_base_direction 16777036 \<noteq> rotated_base_direction 16777206"
  proof
    assume "rotated_base_direction 16777036 = rotated_base_direction 16777206"
    then have "sin (glm_radians 16777036) = sin (glm_radians 16777206) \<and>
        cos (glm_radians 16777036) = cos (glm_radians 16777206)"
      by (simp add: rotated_base_direction_eq)
    then obtain n :: int where "glm_radians 16777036 = glm_radians 16777206 + 2 * pi * of_int n"
      using sin_cos_eq_iff [of "glm_radians 16777036" "glm_radians 16777206"] by blast
    then have "pi * (of_int (36 * n + 17)) = 0"
      by (simp add: glm_radians_def algebra_simps)
    then have "of_int (36 * n + 17) = (0::real)"
      by simp
    then have "36 * n + 17 = 0"
      by (simp only: of_int_eq_0_iff)
    then show False by presburger
  qed
  with st ends show ?thesis by simp
qed

end
